theory Spec2Isabelle
  imports Complex_Main "HOL-Library.Word" "HOL-Library.Signed_Division" "HOL-Library.Log_Nat"
begin

section \<open>JavaScript values used by the feed renderer\<close>

text \<open>
  A JavaScript string is a sequence of UTF-16 code units. String literals of the
  script are ASCII; \<open>js\<close> turns an ASCII literal into its code units.
\<close>

type_synonym jsstring = "16 word list"

definition js :: "string \<Rightarrow> jsstring" where
  "js s = map (\<lambda>c. of_nat (of_char c)) s"

text \<open>
  A property read from parsed JSON is \<open>undefined\<close> when the key is missing, \<open>null\<close>
  when the document says so, and a value otherwise.
\<close>

datatype 'a optional = Undefined | Null | Present 'a

text \<open>
  Exceptions the scripts can meet: a rejected \<open>fetch\<close>, a body that is not JSON
  (\<open>SyntaxError\<close>), a method call on \<open>undefined\<close> or \<open>null\<close>
  (\<open>TypeError\<close>), and the \<open>URIError\<close> of \<open>encodeURIComponent\<close>.
\<close>

datatype error = NetworkError | SyntaxError | TypeError | URIError

subsection \<open>Numbers\<close>

text \<open>
  A JavaScript number is an IEEE 754 double. The numbers of the script that are
  integers (a day count, a count of years or months, a remainder) are modelled by
  their integer value: every integer of magnitude below \<open>2 ^ 53\<close> is a number, a
  larger one only if \<open>roundToNumber\<close> leaves it unchanged. Rounding goes to the
  nearest double, a tie to the one with the even significand.
\<close>

definition roundHalfEven :: "nat \<Rightarrow> nat \<Rightarrow> nat" where
  "roundHalfEven p q =
     (let f = p div q; r = p mod q
      in if 2 * r < q then f else if q < 2 * r then f + 1 else if even f then f else f + 1)"

definition roundToNumber :: "nat \<Rightarrow> nat" where
  "roundToNumber v =
     (let b = floorlog 2 v
      in if b \<le> 53 then v else roundHalfEven v (2 ^ (b - 53)) * 2 ^ (b - 53))"

text \<open>
  The quotient of two numbers is in general not an integer. It is kept as the
  double it is: a significand of at most 53 bits and a binary exponent, the value
  being \<open>mantissa * 2 ^ exponent\<close>. \<open>Number_divide p q\<close> is \<open>p / q\<close> for
  non-negative integer operands and a positive divisor, which is all that the script
  divides; \<open>binade\<close> is the exponent of the leading bit of the exact quotient.
  \<open>Math.floor\<close> rounds a double down to an integer, and \<open>%\<close> is exact and
  takes the sign of the dividend (\<open>smod\<close>).
\<close>

record double =
  mantissa :: nat
  exponent :: int

definition binade :: "nat \<Rightarrow> nat \<Rightarrow> int" where
  "binade p q =
     (if q \<le> p then int (floorlog 2 (p div q)) - 1
      else - int (floorlog 2 ((q + p - 1) div p - 1)))"

definition Number_divide :: "nat \<Rightarrow> nat \<Rightarrow> double" where
  "Number_divide p q =
     (if p = 0 then \<lparr>mantissa = 0, exponent = 0\<rparr>
      else let e = max (binade p q - 52) (- 1074)
           in \<lparr>mantissa = (if e < 0 then roundHalfEven (p * 2 ^ nat (- e)) q
                           else roundHalfEven p (q * 2 ^ nat e)),
               exponent = e\<rparr>)"

definition Math_floor :: "double \<Rightarrow> nat" where
  "Math_floor x =
     (if exponent x < 0 then mantissa x div 2 ^ nat (- exponent x)
      else mantissa x * 2 ^ nat (exponent x))"

text \<open>
  A template literal prints a number with \<open>Number::toString\<close>: the fewest
  significant digits that read back as the same double (of two such, the nearer
  one), followed by zeros up to the decimal point, and in exponent notation from
  \<open>1e21\<close> on. \<open>trailingZeros x m\<close> finds the largest count of final zeros, at
  most \<open>m\<close>, with which a numeral reads back as \<open>x\<close>, and \<open>significand\<close> the
  digits before them.
\<close>

fun digits :: "nat \<Rightarrow> jsstring" where
  "digits n = (if n < 10 then [of_nat (48 + n)] else digits (n div 10) @ [of_nat (48 + n mod 10)])"

declare digits.simps [simp del]

definition readsBack :: "nat \<Rightarrow> nat \<Rightarrow> bool" where
  "readsBack v x = (0 < v \<and> roundToNumber v = x)"

fun trailingZeros :: "nat \<Rightarrow> nat \<Rightarrow> nat" where
  "trailingZeros x m =
     (if m = 0 then 0
      else let lo = x div 10 ^ m * 10 ^ m
           in if readsBack lo x \<or> readsBack (lo + 10 ^ m) x then m
              else trailingZeros x (m - 1))"

declare trailingZeros.simps [simp del]

definition significand :: "nat \<Rightarrow> nat \<Rightarrow> nat" where
  "significand x m =
     (let s = x div 10 ^ m; lo = s * 10 ^ m; hi = lo + 10 ^ m
      in if \<not> readsBack hi x then s
         else if \<not> readsBack lo x then s + 1
         else if x - lo < hi - x then s
         else if hi - x < x - lo then s + 1
         else if even s then s else s + 1)"

definition Number_toString_positive :: "nat \<Rightarrow> jsstring" where
  "Number_toString_positive x =
     (let m = trailingZeros x (length (digits x));
          ds = digits (significand x m);
          n = length ds + m
      in if n \<le> 21 then ds @ replicate m 48
         else (if length ds = 1 then ds else hd ds # js ''.'' @ tl ds)
              @ js ''e+'' @ digits (n - 1))"

definition Number_toString :: "int \<Rightarrow> jsstring" where
  "Number_toString k =
     (if k = 0 then js ''0''
      else if k < 0 then js ''-'' @ Number_toString_positive (nat (- k))
      else Number_toString_positive (nat k))"

text \<open>
  The decimal numeral of an integer, every digit written out: what the
  specification means by \<open><years>\<close>, \<open><months>\<close> and \<open><days>\<close>.
\<close>

definition decimal :: "int \<Rightarrow> jsstring" where
  "decimal k = (if k < 0 then js ''-'' @ digits (nat (- k)) else digits (nat k))"

section \<open>Helpers\<close>

subsection \<open>formatDays\<close>

definition formatDays :: "int optional \<Rightarrow> jsstring" where
  "formatDays days =
     (case days of
        Null \<Rightarrow> js ''Unknown''
      | Undefined \<Rightarrow> js ''Unknown''
      | Present d \<Rightarrow>
          if d \<ge> 365 then
            (let years = Math_floor (Number_divide (nat d) 365)
             in Number_toString (int years) @ js ''y ''
                @ Number_toString (d smod 365) @ js ''d ago'')
          else if d \<ge> 30 then
            (let months = Math_floor (Number_divide (nat d) 30)
             in Number_toString (int months) @ js ''m ''
                @ Number_toString (d smod 30) @ js ''d ago'')
          else Number_toString d @ js '' days ago'')"

subsection \<open>encodeURIComponent\<close>

text \<open>
  The built-in \<open>encodeURIComponent\<close>, as ECMAScript defines it: the letters, the
  digits and \<open>- _ . ! ~ * ' ( )\<close> are copied; any other code point is written as
  the bytes of its UTF-8 encoding, each as \<open>%\<close> and two upper-case hexadecimal
  digits; a surrogate code unit that is not half of a pair raises \<open>URIError\<close>.
\<close>

definition uriUnreserved :: "16 word \<Rightarrow> bool" where
  "uriUnreserved c =
     (let n = unat c in
        (65 \<le> n \<and> n \<le> 90) \<or> (97 \<le> n \<and> n \<le> 122) \<or> (48 \<le> n \<and> n \<le> 57)
        \<or> c \<in> set (js ''-_.!~*()'' @ [0x27]))"

definition isLeadSurrogate :: "16 word \<Rightarrow> bool" where
  "isLeadSurrogate c = (0xD800 \<le> unat c \<and> unat c \<le> 0xDBFF)"

definition isTrailSurrogate :: "16 word \<Rightarrow> bool" where
  "isTrailSurrogate c = (0xDC00 \<le> unat c \<and> unat c \<le> 0xDFFF)"

definition surrogatePair :: "16 word \<Rightarrow> 16 word \<Rightarrow> nat" where
  "surrogatePair lead trail = (unat lead - 0xD800) * 0x400 + (unat trail - 0xDC00) + 0x10000"

definition utf8 :: "nat \<Rightarrow> nat list" where
  "utf8 cp =
     (if cp < 0x80 then [cp]
      else if cp < 0x800 then [0xC0 + cp div 64, 0x80 + cp mod 64]
      else if cp < 0x10000 then [0xE0 + cp div 4096, 0x80 + cp div 64 mod 64, 0x80 + cp mod 64]
      else [0xF0 + cp div 262144, 0x80 + cp div 4096 mod 64, 0x80 + cp div 64 mod 64,
            0x80 + cp mod 64])"

definition hexDigit :: "nat \<Rightarrow> 16 word" where
  "hexDigit n = of_nat (if n < 10 then 48 + n else 55 + n)"

definition percentEncode :: "nat \<Rightarrow> jsstring" where
  "percentEncode b = [0x25, hexDigit (b div 16), hexDigit (b mod 16)]"

definition emit :: "jsstring \<Rightarrow> error + jsstring \<Rightarrow> error + jsstring" where
  "emit out r = (case r of Inl e \<Rightarrow> Inl e | Inr s \<Rightarrow> Inr (out @ s))"

fun encodeURIComponent :: "jsstring \<Rightarrow> error + jsstring" where
  "encodeURIComponent [] = Inr []"
| "encodeURIComponent (c # cs) =
     (if uriUnreserved c then emit [c] (encodeURIComponent cs)
      else if isLeadSurrogate c then
        (case cs of
           [] \<Rightarrow> Inl URIError
         | d # ds \<Rightarrow>
             if isTrailSurrogate d
             then emit (concat (map percentEncode (utf8 (surrogatePair c d))))
                    (encodeURIComponent ds)
             else Inl URIError)
      else if isTrailSurrogate c then Inl URIError
      else emit (concat (map percentEncode (utf8 (unat c)))) (encodeURIComponent cs))"

text \<open>A string is well formed when every surrogate code unit is half of a pair.\<close>

fun wellFormed :: "jsstring \<Rightarrow> bool" where
  "wellFormed [] = True"
| "wellFormed (c # cs) =
     (if isLeadSurrogate c then
        (case cs of [] \<Rightarrow> False | d # ds \<Rightarrow> isTrailSurrogate d \<and> wellFormed ds)
      else \<not> isTrailSurrogate c \<and> wellFormed cs)"

subsection \<open>The feed\<close>

text \<open>
  The parsed feed has the shape of the data model: an optional list of items and an
  optional timestamp string; every field of an item is optional. The operator
  \<open>||\<close> takes its right operand when the left one is falsy: \<open>undefined\<close>,
  \<open>null\<close> and the empty string are falsy, an array never is.
\<close>

record ShopItem =
  item_id :: "jsstring optional"
  name :: "jsstring optional"
  icon :: "jsstring optional"
  days_since :: "int optional"

record ShopFeed =
  items :: "ShopItem list optional"
  updated_utc :: "jsstring optional"

definition or_string :: "jsstring optional \<Rightarrow> jsstring \<Rightarrow> jsstring" where
  "or_string v d =
     (case v of Undefined \<Rightarrow> d | Null \<Rightarrow> d | Present s \<Rightarrow> if s = [] then d else s)"

definition or_array :: "'a list optional \<Rightarrow> 'a list \<Rightarrow> 'a list" where
  "or_array v d = (case v of Undefined \<Rightarrow> d | Null \<Rightarrow> d | Present xs \<Rightarrow> xs)"

subsection \<open>The page\<close>

text \<open>
  The script holds two elements of the page, the grid and the status text, and
  writes to the console. A card is an element with a class name and the markup
  assigned to its \<open>innerHTML\<close>; the grid is the list of its children.
\<close>

record Card =
  className :: jsstring
  innerHTML :: jsstring

datatype log_entry = LogMessage jsstring | LogError error

record Page =
  grid :: "Card list"
  updatedText :: jsstring
  console :: "log_entry list"

text \<open>
  The outcome of \<open>fetch(DATA_URL, { cache: "no-store" })\<close>, the one request of
  the script: the promise is rejected, or it resolves to a response with its
  \<open>ok\<close> flag and the outcome of reading the body as JSON, which the script
  asks for only when the status is OK.
\<close>

record Response =
  ok :: bool
  json :: "error + ShopFeed"

datatype fetch_result = Rejected error | Resolved Response

subsection \<open>createCard\<close>

definition ITEM_LINK_BASE :: jsstring where
  "ITEM_LINK_BASE = js ''https://fnbr.co/cosmetics?id=''"

definition createCard :: "ShopItem \<Rightarrow> error + Card" where
  "createCard item =
     (let id' = or_string (item_id item) [];
          name' = or_string (name item) (js ''Unknown'');
          icon' = or_string (icon item) [];
          days = days_since item
      in case encodeURIComponent id' of
           Inl e \<Rightarrow> Inl e
         | Inr escaped \<Rightarrow>
             (let link = ITEM_LINK_BASE @ escaped
              in Inr \<lparr>className = js ''card'',
                      innerHTML =
                        js ''\<newline>        <a href=\"'' @ link
                        @ js ''\" target=\"_blank\" rel=\"noopener\">\<newline>            <img src=\"''
                        @ icon' @ js ''\" alt=\"'' @ name'
                        @ js ''\" loading=\"lazy\">\<newline>        </a>\<newline>        <div class=\"name\">''
                        @ name' @ js ''</div>\<newline>        <div class=\"days\">''
                        @ formatDays days @ js ''</div>\<newline>    ''\<rparr>))"

subsection \<open>The HTML parser behind innerHTML\<close>

text \<open>
  Assigning markup to \<open>innerHTML\<close> replaces the children of the element by the
  nodes that the HTML fragment parser of the browser builds from the markup (context
  element \<open>div\<close>, insertion mode ``in body''). The part of that algorithm which
  the template of \<open>createCard\<close> needs is modelled: text, start tags written in
  lower-case letters with attributes of the form \<open>name="value"\<close> separated by
  one space, end tags, and the elements \<open>a\<close>, \<open>img\<close> (void) and \<open>div\<close>,
  properly nested. The answer \<open>None\<close> means that the markup needs a part of the
  algorithm that is not modelled (a character reference, a comment, an error
  recovery); the parser of the browser itself never fails. Within a tag, a text or a
  quoted attribute value, NUL and carriage return are set aside as well, since the
  parser replaces them.
\<close>

datatype html_node = TextNode jsstring | Element jsstring "(jsstring \<times> jsstring) list" "html_node list"

datatype token =
    Characters jsstring
  | StartTag jsstring "(jsstring \<times> jsstring) list"
  | EndTag jsstring

datatype lexstate =
    Data jsstring
  | TagOpen
  | EndTagOpen
  | TagName bool jsstring
  | BeforeAttributeName jsstring "(jsstring \<times> jsstring) list"
  | AttributeName jsstring "(jsstring \<times> jsstring) list" jsstring
  | BeforeAttributeValue jsstring "(jsstring \<times> jsstring) list" jsstring
  | AttributeValue jsstring "(jsstring \<times> jsstring) list" jsstring jsstring
  | AfterAttributeValue jsstring "(jsstring \<times> jsstring) list"

text \<open>
  The tokenizer, one state of the standard per constructor; \<open>textChar\<close> and
  \<open>valueChar\<close> are the characters that a text and a double-quoted attribute value
  take as they are.
\<close>

definition lowerAlpha :: "16 word \<Rightarrow> bool" where
  "lowerAlpha c = (97 \<le> unat c \<and> unat c \<le> 122)"

definition textChar :: "16 word \<Rightarrow> bool" where
  "textChar c = (c \<noteq> 0x3C \<and> c \<noteq> 0x26 \<and> c \<noteq> 0x00 \<and> c \<noteq> 0x0D)"

definition valueChar :: "16 word \<Rightarrow> bool" where
  "valueChar c = (c \<noteq> 0x22 \<and> c \<noteq> 0x26 \<and> c \<noteq> 0x00 \<and> c \<noteq> 0x0D)"

definition flush :: "token list \<Rightarrow> jsstring \<Rightarrow> token list" where
  "flush ts t = (if t = [] then ts else ts @ [Characters t])"

fun step :: "token list \<Rightarrow> lexstate \<Rightarrow> 16 word \<Rightarrow> (token list \<times> lexstate) option" where
  "step ts (Data t) c =
     (if c = 0x3C then Some (flush ts t, TagOpen)
      else if textChar c then Some (ts, Data (t @ [c]))
      else None)"
| "step ts TagOpen c =
     (if c = 0x2F then Some (ts, EndTagOpen)
      else if lowerAlpha c then Some (ts, TagName False [c])
      else None)"
| "step ts EndTagOpen c =
     (if lowerAlpha c then Some (ts, TagName True [c]) else None)"
| "step ts (TagName closing n) c =
     (if c = 0x3E then Some (ts @ [if closing then EndTag n else StartTag n []], Data [])
      else if c = 0x20 \<and> \<not> closing then Some (ts, BeforeAttributeName n [])
      else if lowerAlpha c then Some (ts, TagName closing (n @ [c]))
      else None)"
| "step ts (BeforeAttributeName n as) c =
     (if lowerAlpha c then Some (ts, AttributeName n as [c]) else None)"
| "step ts (AttributeName n as a) c =
     (if c = 0x3D then
        (if a \<in> set (map fst as) then None else Some (ts, BeforeAttributeValue n as a))
      else if lowerAlpha c then Some (ts, AttributeName n as (a @ [c]))
      else None)"
| "step ts (BeforeAttributeValue n as a) c =
     (if c = 0x22 then Some (ts, AttributeValue n as a []) else None)"
| "step ts (AttributeValue n as a v) c =
     (if c = 0x22 then Some (ts, AfterAttributeValue n (as @ [(a, v)]))
      else if valueChar c then Some (ts, AttributeValue n as a (v @ [c]))
      else None)"
| "step ts (AfterAttributeValue n as) c =
     (if c = 0x20 then Some (ts, BeforeAttributeName n as)
      else if c = 0x3E then Some (ts @ [StartTag n as], Data [])
      else None)"

fun run :: "token list \<Rightarrow> lexstate \<Rightarrow> jsstring \<Rightarrow> (token list \<times> lexstate) option" where
  "run ts st [] = Some (ts, st)"
| "run ts st (c # cs) =
     (case step ts st c of None \<Rightarrow> None | Some (ts', st') \<Rightarrow> run ts' st' cs)"

definition tokenize :: "jsstring \<Rightarrow> token list option" where
  "tokenize s =
     (case run [] (Data []) s of
        Some (ts, Data t) \<Rightarrow> Some (flush ts t)
      | _ \<Rightarrow> None)"

text \<open>
  Tree construction: a stack of open elements, each with its attributes and the
  children of its parent that came before it. An \<open>a\<close> inside an open \<open>a\<close> and
  an end tag that does not match the current node start error recoveries and are
  not modelled.
\<close>

fun build ::
  "(jsstring \<times> (jsstring \<times> jsstring) list \<times> html_node list) list \<Rightarrow> html_node list \<Rightarrow>
     token list \<Rightarrow> html_node list option" where
  "build stack kids [] = (if stack = [] then Some kids else None)"
| "build stack kids (Characters t # ts) = build stack (kids @ [TextNode t]) ts"
| "build stack kids (StartTag n as # ts) =
     (if n = js ''img'' then build stack (kids @ [Element n as []]) ts
      else if n = js ''div'' \<or> (n = js ''a'' \<and> js ''a'' \<notin> set (map fst stack))
      then build ((n, as, kids) # stack) [] ts
      else None)"
| "build stack kids (EndTag n # ts) =
     (case stack of
        [] \<Rightarrow> None
      | (m, as, before) # rest \<Rightarrow>
          if m = n then build rest (before @ [Element n as kids]) ts else None)"

definition parseFragment :: "jsstring \<Rightarrow> html_node list option" where
  "parseFragment s = (case tokenize s of None \<Rightarrow> None | Some ts \<Rightarrow> build [] [] ts)"

fun textContent :: "html_node \<Rightarrow> jsstring" where
  "textContent (TextNode t) = t"
| "textContent (Element n as kids) = concat (map textContent kids)"

subsection \<open>showError\<close>

definition showError :: "jsstring \<Rightarrow> Page \<Rightarrow> Page" where
  "showError message p =
     p\<lparr>updatedText := message, console := console p @ [LogMessage message]\<rparr>"

section \<open>Main loader\<close>

text \<open>
  The loop \<open>items.forEach\<close> builds and appends one card per item; an exception
  of \<open>createCard\<close> ends it and leaves the grid as it is at that moment.
\<close>

fun items_forEach :: "ShopItem list \<Rightarrow> Page \<Rightarrow> error option \<times> Page" where
  "items_forEach [] p = (None, p)"
| "items_forEach (item # rest) p =
     (case createCard item of
        Inl e \<Rightarrow> (Some e, p)
      | Inr card' \<Rightarrow> items_forEach rest (p\<lparr>grid := grid p @ [card']\<rparr>))"

text \<open>
  The body of the \<open>try\<close> block. It answers the page it leaves and the exception
  it was left with, if any. The argument \<open>toLocaleString\<close> stands for
  \<open>new Date(s).toLocaleString()\<close>, which depends on the locale of the browser.
\<close>

definition loadData_try ::
  "(jsstring \<Rightarrow> jsstring) \<Rightarrow> fetch_result \<Rightarrow> Page \<Rightarrow> error option \<times> Page" where
  "loadData_try toLocaleString fetched p =
     (case fetched of
        Rejected e \<Rightarrow> (Some e, p)
      | Resolved response \<Rightarrow>
          if \<not> ok response then (None, showError (js ''Failed to load data'') p)
          else
            (case json response of
               Inl e \<Rightarrow> (Some e, p)
             | Inr data \<Rightarrow>
                 (let its = or_array (items data) []
                  in if length its = 0
                     then (None, showError (js ''No items in shop right now'') p)
                     else
                       (case items_forEach its (p\<lparr>grid := []\<rparr>) of
                          (Some e, p') \<Rightarrow> (Some e, p')
                        | (None, p') \<Rightarrow>
                            (None,
                             case updated_utc data of
                               Undefined \<Rightarrow> p'\<lparr>updatedText := []\<rparr>
                             | Null \<Rightarrow> p'\<lparr>updatedText := []\<rparr>
                             | Present s \<Rightarrow>
                                 if s = [] then p'\<lparr>updatedText := []\<rparr>
                                 else p'\<lparr>updatedText := js ''Updated: '' @ toLocaleString s\<rparr>)))))"

definition loadData :: "(jsstring \<Rightarrow> jsstring) \<Rightarrow> fetch_result \<Rightarrow> Page \<Rightarrow> Page" where
  "loadData toLocaleString fetched p =
     (case loadData_try toLocaleString fetched p of
        (None, p') \<Rightarrow> p'
      | (Some err, p') \<Rightarrow>
          (let p'' = showError (js ''Error loading data'') p'
           in p''\<lparr>console := console p'' @ [LogError err]\<rparr>))"

section \<open>The script under docs\<close>

text \<open>
  The repository holds a second page script, \<open>docs/app.js\<close>: a single promise
  chain with neither \<open>formatDays\<close> nor \<open>createCard\<close>. It reads the body
  whatever the status of the response, appends one card per item to the grid as it
  stands, and always writes a timestamp; its handler for a rejected promise writes
  \<open>Failed to load data\<close> and logs the exception. A template literal prints
  \<open>undefined\<close> and \<open>null\<close> by their names, and \<open>new Date\<close> accepts
  them, so the formatter of this script takes the optional value.
\<close>

definition template_string :: "jsstring optional \<Rightarrow> jsstring" where
  "template_string v =
     (case v of Undefined \<Rightarrow> js ''undefined'' | Null \<Rightarrow> js ''null'' | Present s \<Rightarrow> s)"

definition template_number :: "int optional \<Rightarrow> jsstring" where
  "template_number v =
     (case v of Undefined \<Rightarrow> js ''undefined'' | Null \<Rightarrow> js ''null''
      | Present d \<Rightarrow> Number_toString d)"

definition app_card :: "ShopItem \<Rightarrow> Card" where
  "app_card item =
     \<lparr>className = js ''card'',
      innerHTML =
        js ''\<newline>                <img src=\"'' @ template_string (icon item)
        @ js ''\" alt=\"'' @ template_string (name item)
        @ js ''\">\<newline>                <div class=\"name\">'' @ template_string (name item)
        @ js ''</div>\<newline>                <div class=\"days\">''
        @ template_number (days_since item)
        @ js '' days ago</div>\<newline>            ''\<rparr>"

definition app_catch :: "error \<Rightarrow> Page \<Rightarrow> Page" where
  "app_catch err p =
     p\<lparr>updatedText := js ''Failed to load data'', console := console p @ [LogError err]\<rparr>"

definition app_load ::
  "(jsstring optional \<Rightarrow> jsstring) \<Rightarrow> fetch_result \<Rightarrow> Page \<Rightarrow> Page" where
  "app_load toLocaleString fetched p =
     (case fetched of
        Rejected e \<Rightarrow> app_catch e p
      | Resolved res \<Rightarrow>
          (case json res of
             Inl e \<Rightarrow> app_catch e p
           | Inr data \<Rightarrow>
               (case items data of
                  Undefined \<Rightarrow> app_catch TypeError p
                | Null \<Rightarrow> app_catch TypeError p
                | Present its \<Rightarrow>
                    p\<lparr>grid := grid p @ map app_card its,
                      updatedText := js ''Updated: '' @ toLocaleString (updated_utc data)\<rparr>)))"

section \<open>Properties of the numbers\<close>

text \<open>Rounding a quotient to a whole number stays within half a unit.\<close>

lemma roundHalfEven_lower: "p div q \<le> roundHalfEven p q"
  by (simp add: roundHalfEven_def Let_def)

lemma roundHalfEven_upper:
  assumes "0 < q"
  shows "2 * q * roundHalfEven p q \<le> 2 * p + q"
proof -
  have split: "q * (p div q) + p mod q = p"
    by simp
  have "2 * (q * (p div q)) \<le> 2 * p + q"
    using split by linarith
  moreover have "q \<le> 2 * (p mod q) \<Longrightarrow> 2 * (q * (p div q)) + 2 * q \<le> 2 * p + q"
    using split by linarith
  ultimately show ?thesis
    by (auto simp: roundHalfEven_def Let_def algebra_simps)
qed

text \<open>Every natural number below \<open>2 ^ 53\<close> is a double; no larger one rounds below it.\<close>

lemma roundToNumber_safe: "v < 2 ^ 53 \<Longrightarrow> roundToNumber v = v"
  by (simp add: roundToNumber_def Let_def floorlog_le_iff)

lemma roundToNumber_large:
  assumes "2 ^ 53 \<le> v"
  shows "2 ^ 53 \<le> roundToNumber v"
proof (cases "floorlog 2 v \<le> 53")
  case True
  with assms show ?thesis by (simp add: roundToNumber_def)
next
  case False
  define sh where "sh = floorlog 2 v - 53"
  have b: "floorlog 2 v = sh + 53" and sh: "0 < sh"
    using False by (simp_all add: sh_def)
  have "0 < v" using assms by (simp add: order_less_le_trans [of 0 "2 ^ 53" v])
  then have "(2::nat) ^ (sh + 52) \<le> v"
    using floorlog_bounds [of v 2] b by (simp add: add.commute)
  then have "(2::nat) ^ 52 * 2 ^ sh \<le> v"
    by (simp add: power_add mult.commute)
  then have "(2::nat) ^ 52 \<le> v div 2 ^ sh"
    by (simp add: less_eq_div_iff_mult_less_eq)
  then have "(2::nat) ^ 52 \<le> roundHalfEven v (2 ^ sh)"
    using roundHalfEven_lower [of v "2 ^ sh"] by linarith
  then have "(2::nat) ^ 52 * 2 ^ sh \<le> roundHalfEven v (2 ^ sh) * 2 ^ sh"
    by (rule mult_le_mono1)
  moreover have "(2::nat) ^ 52 * 2 ^ 1 \<le> 2 ^ 52 * 2 ^ sh"
    using sh by (intro mult_le_mono2 power_increasing) simp_all
  moreover have "roundToNumber v = roundHalfEven v (2 ^ sh) * 2 ^ sh"
    using False by (simp add: roundToNumber_def Let_def sh_def)
  moreover have "(2::nat) ^ 53 = 2 ^ 52 * 2 ^ 1"
    by simp
  ultimately show ?thesis
    by (metis le_trans)
qed

lemma readsBack_safe: "x < 2 ^ 53 \<Longrightarrow> readsBack v x \<longleftrightarrow> 0 < v \<and> v = x"
proof (cases "v < 2 ^ 53")
  case True
  then show ?thesis by (auto simp: readsBack_def roundToNumber_safe)
next
  case False
  assume "x < 2 ^ 53"
  with False roundToNumber_large [of v] show ?thesis
    by (auto simp: readsBack_def)
qed

text \<open>
  Below \<open>2 ^ 53\<close> the only numeral that reads back as a number is its own, so
  \<open>Number::toString\<close> prints every digit.
\<close>

lemma trailingZeros_dvd: "x < 2 ^ 53 \<Longrightarrow> 10 ^ trailingZeros x m dvd x"
proof (induction x m rule: trailingZeros.induct)
  case (1 x m)
  show ?case
  proof (cases "m = 0")
    case True
    then show ?thesis by (subst trailingZeros.simps) simp
  next
    case False
    let ?lo = "x div 10 ^ m * 10 ^ m"
    have "x mod 10 ^ m < 10 ^ m"
      by simp
    then have above: "x < ?lo + 10 ^ m"
      using div_mult_mod_eq [of x "10 ^ m"] by linarith
    show ?thesis
    proof (cases "readsBack ?lo x \<or> readsBack (?lo + 10 ^ m) x")
      case True
      with above "1.prems" have "?lo = x"
        by (auto simp: readsBack_safe)
      then have "10 ^ m dvd x"
        by (metis dvd_triv_right)
      with False True show ?thesis
        by (subst trailingZeros.simps) (simp add: Let_def)
    next
      case miss: False
      with False "1.IH" [OF False refl miss "1.prems"] show ?thesis
        by (subst trailingZeros.simps) (simp add: Let_def)
    qed
  qed
qed

lemma significand_safe:
  assumes "x < 2 ^ 53" and "10 ^ m dvd x"
  shows "significand x m = x div 10 ^ m"
proof -
  have "x div 10 ^ m * 10 ^ m = x"
    using assms(2) by simp
  then have "\<not> readsBack (x div 10 ^ m * 10 ^ m + 10 ^ m) x"
    using assms(1) by (simp add: readsBack_safe)
  then show ?thesis
    by (simp add: significand_def Let_def)
qed

lemma digits_nonempty: "digits n \<noteq> []"
  by (subst digits.simps) simp

lemma digits_times_ten: "0 < s \<Longrightarrow> digits (s * 10) = digits s @ [48]"
  by (subst digits.simps) simp

lemma digits_zeros: "0 < s \<Longrightarrow> digits (s * 10 ^ m) = digits s @ replicate m 48"
proof (induction m)
  case 0
  then show ?case by simp
next
  case (Suc m)
  have "s * 10 ^ Suc m = s * 10 ^ m * 10"
    by simp
  then have "digits (s * 10 ^ Suc m) = digits (s * 10 ^ m * 10)"
    by (rule arg_cong)
  also have "\<dots> = (digits s @ replicate m 48) @ [48]"
    using digits_times_ten [of "s * 10 ^ m"] Suc by simp
  finally show ?case
    by (simp add: replicate_append_same)
qed

lemma length_digits: "x < 10 ^ n \<Longrightarrow> 0 < n \<Longrightarrow> length (digits x) \<le> n"
proof (induction x arbitrary: n rule: digits.induct)
  case (1 x)
  show ?case
  proof (cases "x < 10")
    case True
    with "1.prems" show ?thesis by (subst digits.simps) simp
  next
    case False
    with "1.prems" obtain k where n: "n = Suc k" and k: "0 < k"
      by (cases n; cases "n - 1") auto
    from "1.prems" n have "x div 10 < 10 ^ k"
      by (simp add: div_less_iff_less_mult mult.commute)
    with "1.IH" [OF False this k] False n show ?thesis
      by (subst digits.simps) simp
  qed
qed

lemma Number_toString_positive_safe:
  assumes "0 < x" and "x < 2 ^ 53"
  shows "Number_toString_positive x = digits x"
proof -
  define m where "m = trailingZeros x (length (digits x))"
  have dvd: "10 ^ m dvd x"
    unfolding m_def using assms(2) by (rule trailingZeros_dvd)
  have s: "significand x m = x div 10 ^ m"
    using assms(2) dvd by (rule significand_safe)
  have pos: "0 < x div 10 ^ m"
    using dvd assms(1) by (metis dvd_div_eq_0_iff gr0I)
  have whole: "digits (x div 10 ^ m) @ replicate m 48 = digits x"
    using digits_zeros [OF pos, of m] dvd by simp
  have "x < 10 ^ 16"
    using assms(2) by simp
  then have "length (digits x) \<le> 16"
    by (rule length_digits) simp
  moreover have "length (digits (x div 10 ^ m)) + m = length (digits x)"
    using whole by (metis length_append length_replicate)
  ultimately have "length (digits (x div 10 ^ m)) + m \<le> 21"
    by linarith
  with whole s show ?thesis
    by (simp add: Number_toString_positive_def Let_def flip: m_def)
qed

lemma Number_toString_safe: "\<bar>k\<bar> < 2 ^ 53 \<Longrightarrow> Number_toString k = decimal k"
proof -
  assume k: "\<bar>k\<bar> < 2 ^ 53"
  have zero: "digits 0 = js ''0''"
    by (simp add: digits.simps js_def)
  have "nat \<bar>k\<bar> < 2 ^ 53"
    using k by (simp add: nat_less_iff)
  then show ?thesis
    using zero Number_toString_positive_safe [of "nat \<bar>k\<bar>"]
    by (auto simp: Number_toString_def decimal_def)
qed

text \<open>
  What \<open>digits\<close> prints are decimal digits, and reading them back gives the
  number.
\<close>

lemma digit_unat: "d < 10 \<Longrightarrow> unat (48 + of_nat d :: 16 word) = 48 + d"
proof -
  assume "d < 10"
  have "unat (of_nat (48 + d) :: 16 word) = (48 + d) mod 2 ^ 16"
    by (subst unat_of_nat) simp
  with \<open>d < 10\<close> show ?thesis by simp
qed

lemma digits_decimal: "foldl (\<lambda>a c. 10 * a + (unat c - 48)) 0 (digits n) = n"
proof (induction n rule: digits.induct)
  case (1 n)
  show ?case
  proof (cases "n < 10")
    case True
    then show ?thesis
      by (subst digits.simps) (simp add: digit_unat)
  next
    case False
    then show ?thesis
      using "1.IH" by (subst digits.simps) (simp add: digit_unat)
  qed
qed

lemma digits_are_digits: "c \<in> set (digits n) \<Longrightarrow> 48 \<le> unat c \<and> unat c \<le> 57"
proof (induction n rule: digits.induct)
  case (1 n)
  show ?case
  proof (cases "n < 10")
    case True
    with "1.prems" show ?thesis
      by (subst (asm) digits.simps) (simp add: digit_unat)
  next
    case False
    with "1.prems" "1.IH" show ?thesis
      by (subst (asm) digits.simps) (auto simp: digit_unat)
  qed
qed

text \<open>
  While the quotient has bits to spare below the binary point, rounding it cannot
  reach the next integer: \<open>Math.floor\<close> of the rounded quotient is the integer
  quotient.
\<close>

lemma floor_divide_safe:
  assumes k: "2 \<le> k" and kd: "k \<le> d" and w: "d div k < 2 ^ w" and w52: "w \<le> 52"
    and small: "k < 2 ^ (54 - w)"
  shows "Math_floor (Number_divide d k) = d div k"
proof -
  define b where "b = floorlog 2 (d div k)"
  define j where "j = 53 - b"
  have q1: "1 \<le> d div k"
    using k kd by (simp add: less_eq_div_iff_mult_less_eq)
  then have b1: "1 \<le> b"
    unfolding b_def using floorlog_eq_zero_iff [of 2 "d div k"] by simp
  have bw: "b \<le> w"
    unfolding b_def using w by (simp add: floorlog_leI)
  have e: "max (binade d k - 52) (- 1074) = - int j"
    using b1 bw w52 kd by (simp add: binade_def j_def flip: b_def)
  have j1: "1 \<le> j"
    using bw w52 by (simp add: j_def)
  have "d \<noteq> 0"
    using k kd by simp
  then have val: "Math_floor (Number_divide d k) = roundHalfEven (d * 2 ^ j) k div 2 ^ j"
    using j1 by (simp add: Number_divide_def Math_floor_def Let_def e)
  define T :: nat where "T = 2 ^ j"
  define m where "m = roundHalfEven (d * T) k"
  have T: "0 < T" by (simp add: T_def)
  have "54 - w \<le> j + 1"
    using bw by (simp add: j_def)
  then have "(2::nat) ^ (54 - w) \<le> 2 ^ (j + 1)"
    by (intro power_increasing) simp_all
  with small have kT: "k < 2 * T"
    by (simp add: T_def)
  have "d div k * k * T \<le> d * T"
    by (intro mult_le_mono1) simp
  then have "d div k * T * k \<le> d * T"
    by (simp add: mult.assoc mult.commute [of k T])
  then have "d div k * T \<le> d * T div k"
    using k by (simp add: less_eq_div_iff_mult_less_eq)
  then have "d div k * T \<le> m"
    using roundHalfEven_lower [of "d * T" k] by (simp add: m_def)
  then have lower: "d div k \<le> m div T"
    using T by (simp add: less_eq_div_iff_mult_less_eq)
  have up: "2 * k * m \<le> 2 * (d * T) + k"
    unfolding m_def using k by (intro roundHalfEven_upper) simp
  have "m < (d div k + 1) * T"
  proof (rule ccontr)
    assume "\<not> m < (d div k + 1) * T"
    then have "(d div k + 1) * T \<le> m" by simp
    then have "2 * k * ((d div k + 1) * T) \<le> 2 * k * m"
      by (rule mult_le_mono2)
    with up have "2 * k * ((d div k + 1) * T) \<le> 2 * (d * T) + k"
      by linarith
    moreover have "d = k * (d div k) + d mod k"
      by simp
    then have "d * T = k * (d div k) * T + d mod k * T"
      by (metis distrib_right)
    moreover have rem: "d mod k * T + T \<le> k * T"
    proof -
      have "d mod k + 1 \<le> k" using k by (simp add: Suc_leI)
      then have "(d mod k + 1) * T \<le> k * T" by (rule mult_le_mono1)
      then show ?thesis by (simp add: distrib_right)
    qed
    ultimately have "2 * k * T \<le> 2 * (d mod k * T) + k"
      by (simp add: algebra_simps)
    with rem kT show False
      by (simp add: algebra_simps)
  qed
  then have "m div T < d div k + 1"
    using T by (simp add: div_less_iff_less_mult)
  with lower have "m div T = d div k" by linarith
  with val show ?thesis by (simp add: m_def T_def)
qed

lemma floor_divide_365:
  "365 \<le> d \<Longrightarrow> d < 2 ^ 53 \<Longrightarrow> Math_floor (Number_divide d 365) = d div 365"
  by (rule floor_divide_safe [where w = 45]) (simp_all add: div_less_iff_less_mult)

lemma floor_divide_30:
  "30 \<le> d \<Longrightarrow> d < 2 ^ 53 \<Longrightarrow> Math_floor (Number_divide d 30) = d div 30"
  by (rule floor_divide_safe [where w = 49]) (simp_all add: div_less_iff_less_mult)

section \<open>Properties of formatDays\<close>

lemma smod_nonneg: "0 \<le> d \<Longrightarrow> 0 < k \<Longrightarrow> (d::int) smod k = d mod k"
  by (cases "d = 0") (simp_all add: signed_modulo_int_def)

lemma formatDays_years:
  assumes "365 \<le> d" and "d < 2 ^ 53"
  shows "formatDays (Present d) =
     decimal (d div 365) @ js ''y '' @ decimal (d mod 365) @ js ''d ago''"
proof -
  have "nat d < 2 ^ 53" and "365 \<le> nat d"
    using assms by (simp_all add: nat_less_iff le_nat_iff)
  then have "Math_floor (Number_divide (nat d) 365) = nat d div 365"
    using floor_divide_365 by blast
  then have years: "int (Math_floor (Number_divide (nat d) 365)) = d div 365"
    using assms(1) by (simp add: zdiv_int)
  have "d div 365 = int (nat d div 365)"
    using assms(1) by (simp add: zdiv_int)
  moreover have "nat d div 365 \<le> nat d"
    by (rule div_le_dividend)
  ultimately have "0 \<le> d div 365" and "d div 365 \<le> d"
    using assms(1) by simp_all
  then have y: "Number_toString (d div 365) = decimal (d div 365)"
    using assms(2) by (intro Number_toString_safe) simp
  have "0 \<le> d mod 365" and "d mod 365 < 365"
    by simp_all
  then have r: "Number_toString (d mod 365) = decimal (d mod 365)"
    by (intro Number_toString_safe) simp
  show ?thesis
    using assms(1) smod_nonneg [of d 365] by (simp add: formatDays_def years y r)
qed

lemma formatDays_months:
  assumes "30 \<le> d" and "d < 365"
  shows "formatDays (Present d) =
     decimal (d div 30) @ js ''m '' @ decimal (d mod 30) @ js ''d ago''"
proof -
  have "nat d < 2 ^ 53" and "30 \<le> nat d"
    using assms by (simp_all add: nat_less_iff le_nat_iff)
  then have "Math_floor (Number_divide (nat d) 30) = nat d div 30"
    using floor_divide_30 by blast
  then have months: "int (Math_floor (Number_divide (nat d) 30)) = d div 30"
    using assms(1) by (simp add: zdiv_int)
  have "d div 30 = int (nat d div 30)"
    using assms(1) by (simp add: zdiv_int)
  moreover have "nat d div 30 \<le> nat d"
    by (rule div_le_dividend)
  ultimately have "0 \<le> d div 30" and "d div 30 \<le> d"
    using assms(1) by simp_all
  then have y: "Number_toString (d div 30) = decimal (d div 30)"
    using assms(2) by (intro Number_toString_safe) simp
  have "0 \<le> d mod 30" and "d mod 30 < 30"
    by simp_all
  then have r: "Number_toString (d mod 30) = decimal (d mod 30)"
    by (intro Number_toString_safe) simp
  show ?thesis
    using assms smod_nonneg [of d 30] by (simp add: formatDays_def months y r)
qed

lemma formatDays_days:
  "d < 30 \<Longrightarrow> formatDays (Present d) = Number_toString d @ js '' days ago''"
  by (simp add: formatDays_def)


lemma formatDays_examples:
  "formatDays (Present 400) = js ''1y 35d ago''"
  "formatDays (Present 40) = js ''1m 10d ago''"
  "formatDays (Present 5) = js ''5 days ago''"
  "formatDays (Present 3) = js ''3 days ago''"
proof -
  show "formatDays (Present 400) = js ''1y 35d ago''"
    using formatDays_years [of 400] by (simp add: decimal_def digits.simps js_def)
  show "formatDays (Present 40) = js ''1m 10d ago''"
    using formatDays_months [of 40] by (simp add: decimal_def digits.simps js_def)
  show "formatDays (Present 5) = js ''5 days ago''"
    using formatDays_days [of 5] Number_toString_safe [of 5]
    by (simp add: decimal_def digits.simps js_def)
  show "formatDays (Present 3) = js ''3 days ago''"
    using formatDays_days [of 3] Number_toString_safe [of 3]
    by (simp add: decimal_def digits.simps js_def)
qed

text \<open>Rules to evaluate \<open>Number::toString\<close> on a given number, one step at a time.\<close>

lemmas evaluate = Math_floor_def Number_divide_def binade_def compute_floorlog
  roundHalfEven_def roundToNumber_def Let_def

lemma trailingZeros_hit:
  "0 < m \<Longrightarrow>
   readsBack (x div 10 ^ m * 10 ^ m) x \<or> readsBack (x div 10 ^ m * 10 ^ m + 10 ^ m) x \<Longrightarrow>
   trailingZeros x m = m"
  by (subst trailingZeros.simps) (simp add: Let_def)

lemma trailingZeros_miss:
  "0 < m \<Longrightarrow> \<not> readsBack (x div 10 ^ m * 10 ^ m) x \<Longrightarrow>
   \<not> readsBack (x div 10 ^ m * 10 ^ m + 10 ^ m) x \<Longrightarrow>
   trailingZeros x m = trailingZeros x (m - 1)"
  by (subst trailingZeros.simps) (simp add: Let_def)

lemma significand_lower:
  "\<not> readsBack (x div 10 ^ m * 10 ^ m + 10 ^ m) x \<Longrightarrow> significand x m = x div 10 ^ m"
  by (simp add: significand_def Let_def)

lemma significand_upper:
  "readsBack (x div 10 ^ m * 10 ^ m + 10 ^ m) x \<Longrightarrow> \<not> readsBack (x div 10 ^ m * 10 ^ m) x \<Longrightarrow>
   significand x m = x div 10 ^ m + 1"
  by (simp add: significand_def Let_def)

lemma significand_nearer_upper:
  "readsBack (x div 10 ^ m * 10 ^ m + 10 ^ m) x \<Longrightarrow> readsBack (x div 10 ^ m * 10 ^ m) x \<Longrightarrow>
   x div 10 ^ m * 10 ^ m + 10 ^ m - x < x - x div 10 ^ m * 10 ^ m \<Longrightarrow>
   significand x m = x div 10 ^ m + 1"
  by (simp add: significand_def Let_def)

lemma toString_1e21:
  "Number_toString (- 1000000000000000000000) = js ''-1e+21''"
proof -
  have len: "length (digits 1000000000000000000000) = 22"
    by (simp add: digits.simps)
  have "trailingZeros 1000000000000000000000 22 = trailingZeros 1000000000000000000000 21"
    by (rule trailingZeros_miss [THEN trans]) (simp_all add: readsBack_def evaluate)
  also have "\<dots> = 21"
    by (rule trailingZeros_hit) (simp_all add: readsBack_def evaluate)
  finally have tz: "trailingZeros 1000000000000000000000 22 = 21" .
  have sg: "significand 1000000000000000000000 21 = 1"
    by (rule significand_lower [THEN trans]) (simp_all add: readsBack_def evaluate)
  have d1: "digits (Suc 0) = js ''1''" and d21: "digits 21 = js ''21''"
    by (simp_all add: digits.simps js_def)
  have "Number_toString_positive 1000000000000000000000 = js ''1e+21''"
    by (simp add: Number_toString_positive_def len tz sg d1 d21) (simp add: js_def digits.simps)
  then show ?thesis
    by (simp add: Number_toString_def js_def)
qed

lemma toString_2_60: "Number_toString (- 1152921504606846976) = js ''-1152921504606847000''"
proof -
  have len: "length (digits 1152921504606846976) = 19"
    by (simp add: digits.simps)
  have "trailingZeros 1152921504606846976 19 = trailingZeros 1152921504606846976 18"
    by (rule trailingZeros_miss [THEN trans]) (simp_all add: readsBack_def evaluate)
  also have "\<dots> = trailingZeros 1152921504606846976 17"
    by (rule trailingZeros_miss [THEN trans]) (simp_all add: readsBack_def evaluate)
  also have "\<dots> = trailingZeros 1152921504606846976 16"
    by (rule trailingZeros_miss [THEN trans]) (simp_all add: readsBack_def evaluate)
  also have "\<dots> = trailingZeros 1152921504606846976 15"
    by (rule trailingZeros_miss [THEN trans]) (simp_all add: readsBack_def evaluate)
  also have "\<dots> = trailingZeros 1152921504606846976 14"
    by (rule trailingZeros_miss [THEN trans]) (simp_all add: readsBack_def evaluate)
  also have "\<dots> = trailingZeros 1152921504606846976 13"
    by (rule trailingZeros_miss [THEN trans]) (simp_all add: readsBack_def evaluate)
  also have "\<dots> = trailingZeros 1152921504606846976 12"
    by (rule trailingZeros_miss [THEN trans]) (simp_all add: readsBack_def evaluate)
  also have "\<dots> = trailingZeros 1152921504606846976 11"
    by (rule trailingZeros_miss [THEN trans]) (simp_all add: readsBack_def evaluate)
  also have "\<dots> = trailingZeros 1152921504606846976 10"
    by (rule trailingZeros_miss [THEN trans]) (simp_all add: readsBack_def evaluate)
  also have "\<dots> = trailingZeros 1152921504606846976 9"
    by (rule trailingZeros_miss [THEN trans]) (simp_all add: readsBack_def evaluate)
  also have "\<dots> = trailingZeros 1152921504606846976 8"
    by (rule trailingZeros_miss [THEN trans]) (simp_all add: readsBack_def evaluate)
  also have "\<dots> = trailingZeros 1152921504606846976 7"
    by (rule trailingZeros_miss [THEN trans]) (simp_all add: readsBack_def evaluate)
  also have "\<dots> = trailingZeros 1152921504606846976 6"
    by (rule trailingZeros_miss [THEN trans]) (simp_all add: readsBack_def evaluate)
  also have "\<dots> = trailingZeros 1152921504606846976 5"
    by (rule trailingZeros_miss [THEN trans]) (simp_all add: readsBack_def evaluate)
  also have "\<dots> = trailingZeros 1152921504606846976 4"
    by (rule trailingZeros_miss [THEN trans]) (simp_all add: readsBack_def evaluate)
  also have "\<dots> = trailingZeros 1152921504606846976 3"
    by (rule trailingZeros_miss [THEN trans]) (simp_all add: readsBack_def evaluate)
  also have "\<dots> = 3"
    by (rule trailingZeros_hit) (simp_all add: readsBack_def evaluate)
  finally have tz: "trailingZeros 1152921504606846976 19 = 3" .
  have sg: "significand 1152921504606846976 3 = 1152921504606847"
    by (rule significand_upper [THEN trans]) (simp_all add: readsBack_def evaluate)
  have ds: "digits 1152921504606847 = js ''1152921504606847''"
    by (simp add: digits.simps js_def)
  have "Number_toString_positive 1152921504606846976 = js ''1152921504606847000''"
    by (simp add: Number_toString_positive_def len tz sg ds) (simp add: js_def numeral_3_eq_3)
  then show ?thesis
    by (simp add: Number_toString_def js_def)
qed

text \<open>
  The quotient of \<open>10 ^ 21\<close> by 365 is rounded to a double above \<open>2 ^ 53\<close>, and its
  shortest digits that read back end in two zeros.
\<close>

lemma toString_years_1e21: "Number_toString 2739726027397260288 = js ''2739726027397260300''"
proof -
  have len: "length (digits 2739726027397260288) = 19"
    by (simp add: digits.simps)
  have "trailingZeros 2739726027397260288 19 = trailingZeros 2739726027397260288 18"
    by (rule trailingZeros_miss [THEN trans]) (simp_all add: readsBack_def evaluate)
  also have "\<dots> = trailingZeros 2739726027397260288 17"
    by (rule trailingZeros_miss [THEN trans]) (simp_all add: readsBack_def evaluate)
  also have "\<dots> = trailingZeros 2739726027397260288 16"
    by (rule trailingZeros_miss [THEN trans]) (simp_all add: readsBack_def evaluate)
  also have "\<dots> = trailingZeros 2739726027397260288 15"
    by (rule trailingZeros_miss [THEN trans]) (simp_all add: readsBack_def evaluate)
  also have "\<dots> = trailingZeros 2739726027397260288 14"
    by (rule trailingZeros_miss [THEN trans]) (simp_all add: readsBack_def evaluate)
  also have "\<dots> = trailingZeros 2739726027397260288 13"
    by (rule trailingZeros_miss [THEN trans]) (simp_all add: readsBack_def evaluate)
  also have "\<dots> = trailingZeros 2739726027397260288 12"
    by (rule trailingZeros_miss [THEN trans]) (simp_all add: readsBack_def evaluate)
  also have "\<dots> = trailingZeros 2739726027397260288 11"
    by (rule trailingZeros_miss [THEN trans]) (simp_all add: readsBack_def evaluate)
  also have "\<dots> = trailingZeros 2739726027397260288 10"
    by (rule trailingZeros_miss [THEN trans]) (simp_all add: readsBack_def evaluate)
  also have "\<dots> = trailingZeros 2739726027397260288 9"
    by (rule trailingZeros_miss [THEN trans]) (simp_all add: readsBack_def evaluate)
  also have "\<dots> = trailingZeros 2739726027397260288 8"
    by (rule trailingZeros_miss [THEN trans]) (simp_all add: readsBack_def evaluate)
  also have "\<dots> = trailingZeros 2739726027397260288 7"
    by (rule trailingZeros_miss [THEN trans]) (simp_all add: readsBack_def evaluate)
  also have "\<dots> = trailingZeros 2739726027397260288 6"
    by (rule trailingZeros_miss [THEN trans]) (simp_all add: readsBack_def evaluate)
  also have "\<dots> = trailingZeros 2739726027397260288 5"
    by (rule trailingZeros_miss [THEN trans]) (simp_all add: readsBack_def evaluate)
  also have "\<dots> = trailingZeros 2739726027397260288 4"
    by (rule trailingZeros_miss [THEN trans]) (simp_all add: readsBack_def evaluate)
  also have "\<dots> = trailingZeros 2739726027397260288 3"
    by (rule trailingZeros_miss [THEN trans]) (simp_all add: readsBack_def evaluate)
  also have "\<dots> = trailingZeros 2739726027397260288 2"
    by (rule trailingZeros_miss [THEN trans]) (simp_all add: readsBack_def evaluate)
  also have "\<dots> = 2"
    by (rule trailingZeros_hit) (simp_all add: readsBack_def evaluate)
  finally have tz: "trailingZeros 2739726027397260288 19 = 2" .
  have sg: "significand 2739726027397260288 2 = 27397260273972603"
    by (rule significand_nearer_upper [THEN trans]) (simp_all add: readsBack_def evaluate)
  have ds: "digits 27397260273972603 = js ''27397260273972603''"
    by (simp add: digits.simps js_def)
  have "Number_toString_positive 2739726027397260288 = js ''2739726027397260300''"
    by (simp add: Number_toString_positive_def len tz sg ds) (simp add: js_def numeral_2_eq_2)
  then show ?thesis
    by (simp add: Number_toString_def)
qed

lemma formatDays_1e21:
  "formatDays (Present 1000000000000000000000) = js ''2739726027397260300y 355d ago''"
proof -
  have "Math_floor (Number_divide 1000000000000000000000 365) = 2739726027397260288"
    by (simp add: evaluate)
  moreover have "Number_toString 355 = js ''355''"
    using Number_toString_safe [of 355] by (simp add: decimal_def digits.simps js_def)
  ultimately show ?thesis
    using toString_years_1e21
    by (simp add: formatDays_def signed_modulo_int_def) (simp add: js_def)
qed




text \<open>
  C9: the formatter is defined on every integer, negative ones included: no branch
  checks a bound or signals an error, and the answer is always a label that ends in
  \<open>ago\<close> after a non-empty count, never the \<open>Unknown\<close> of an absent value.
\<close>

theorem formatDays_total:
  "\<exists>body. body \<noteq> [] \<and> formatDays (Present d) = body @ js '' ago''
     \<and> formatDays (Present d) \<noteq> js ''Unknown''"
proof -
  have ends: "\<exists>body. body \<noteq> [] \<and> count @ unit = body @ js '' ago''
      \<and> count @ unit \<noteq> js ''Unknown''"
    if "unit = js ''d ago'' \<or> unit = js '' days ago''" for count unit :: jsstring
  proof -
    from that obtain mark where unit: "unit = mark @ js '' ago''" and mark: "mark \<noteq> []"
      by (elim disjE) (rule that [of "js ''d''"], simp add: js_def, simp add: js_def,
          rule that [of "js '' days''"], simp add: js_def, simp add: js_def)
    have "(count @ mark) @ js '' ago'' \<noteq> js ''Unknown''"
      by (simp add: js_def append_eq_Cons_conv Cons_eq_append_conv)
    with unit mark show ?thesis
      by (intro exI [of _ "count @ mark"]) simp
  qed
  consider (y) "365 \<le> d" | (m) "30 \<le> d" "d < 365" | (s) "d < 30"
    by linarith
  then show ?thesis
  proof cases
    case y
    then show ?thesis
      using ends [of "js ''d ago''"
          "Number_toString (int (Math_floor (Number_divide (nat d) 365))) @ js ''y ''
           @ Number_toString (d smod 365)"]
      by (simp add: formatDays_def)
  next
    case m
    then show ?thesis
      using ends [of "js ''d ago''"
          "Number_toString (int (Math_floor (Number_divide (nat d) 30))) @ js ''m ''
           @ Number_toString (d smod 30)"]
      by (simp add: formatDays_def)
  next
    case s
    then show ?thesis
      using ends [of "js '' days ago''" "Number_toString d"]
      by (simp add: formatDays_def)
  qed
qed

text \<open>
  C10 (as amended): a negative integer above \<open>- 2 ^ 53\<close> passes both threshold tests
  and is printed as it is, the minus sign first and then every digit, followed by
  \<open>days ago\<close>.
\<close>

theorem formatDays_negative:
  "- (2 ^ 53) < d \<Longrightarrow> d < 0 \<Longrightarrow>
     formatDays (Present d) = js ''-'' @ digits (nat (- d)) @ js '' days ago''"
  using Number_toString_safe [of d] by (simp add: formatDays_def decimal_def)

theorem formatDays_negative_witness:
  "- (2 ^ 53) < (- 5 :: int) \<and> (- 5 :: int) < 0
   \<and> formatDays (Present (- 5)) = js ''-5 days ago''"
  using formatDays_negative [of "- 5"]
  by (simp add: digits.simps js_def)

text \<open>
  C10, where the claim as written fails: beyond \<open>2 ^ 53\<close> a negative day count still
  falls through to the last branch, but it is not printed digit for digit:
  \<open>- 2 ^ 60\<close> comes out with its last digits replaced by zeros, and
  \<open>- 10 ^ 21\<close> in exponent notation. Both are doubles, so both can be passed.
\<close>

theorem formatDays_large_negative:
  "roundToNumber 1152921504606846976 = 1152921504606846976
   \<and> roundToNumber 1000000000000000000000 = 1000000000000000000000
   \<and> formatDays (Present (- 1152921504606846976)) = js ''-1152921504606847000 days ago''
   \<and> formatDays (Present (- 1000000000000000000000)) = js ''-1e+21 days ago''
   \<and> decimal (- 1152921504606846976) = js ''-1152921504606846976''
   \<and> decimal (- 1000000000000000000000) = js ''-1000000000000000000000''"
proof -
  have "roundToNumber 1152921504606846976 = 1152921504606846976"
    and "roundToNumber 1000000000000000000000 = 1000000000000000000000"
    by (simp_all add: evaluate)
  moreover have "formatDays (Present (- 1152921504606846976)) =
      js ''-1152921504606847000 days ago''"
    and "formatDays (Present (- 1000000000000000000000)) = js ''-1e+21 days ago''"
    using toString_2_60 toString_1e21 by (simp_all add: formatDays_def js_def)
  moreover have "decimal (- 1152921504606846976) = js ''-1152921504606846976''"
    and "decimal (- 1000000000000000000000) = js ''-1000000000000000000000''"
    by (simp_all add: decimal_def digits.simps js_def)
  ultimately show ?thesis
    by blast
qed

section \<open>Properties of encodeURIComponent\<close>

lemma emit_Inr_iff: "emit out r = Inr u \<longleftrightarrow> (\<exists>s. r = Inr s \<and> u = out @ s)"
  by (cases r) (auto simp: emit_def)

lemma emit_Inl_iff: "emit out r = Inl e \<longleftrightarrow> r = Inl e"
  by (cases r) (auto simp: emit_def)

lemma unreserved_not_surrogate:
  "uriUnreserved c \<Longrightarrow> \<not> isLeadSurrogate c \<and> \<not> isTrailSurrogate c"
  by (auto simp: uriUnreserved_def isLeadSurrogate_def isTrailSurrogate_def js_def Let_def)

lemma encode_wellFormed_iff:
  "(\<exists>u. encodeURIComponent s = Inr u) \<longleftrightarrow> wellFormed s"
proof (induction s rule: wellFormed.induct)
  case 1
  show ?case by simp
next
  case (2 c cs)
  show ?case
  proof (cases "isLeadSurrogate c")
    case lead: True
    then have nu: "\<not> uriUnreserved c"
      using unreserved_not_surrogate by blast
    show ?thesis
    proof (cases cs)
      case Nil
      with lead nu show ?thesis by simp
    next
      case (Cons d ds)
      show ?thesis
      proof (cases "isTrailSurrogate d")
        case True
        with "2.IH"(1) [OF lead Cons] lead nu Cons show ?thesis
          by (simp add: emit_Inr_iff)
      next
        case False
        with lead nu Cons show ?thesis by simp
      qed
    qed
  next
    case nolead: False
    show ?thesis
    proof (cases "isTrailSurrogate c")
      case True
      with nolead show ?thesis
        using unreserved_not_surrogate [of c] by auto
    next
      case False
      with "2.IH"(2) [OF nolead] nolead show ?thesis
        by (auto simp: emit_Inr_iff)
    qed
  qed
qed

lemma encode_raises_URIError: "encodeURIComponent s = Inl e \<Longrightarrow> e = URIError"
proof (induction s rule: wellFormed.induct)
  case 1
  then show ?case by simp
next
  case (2 c cs)
  show ?case
  proof (cases "isLeadSurrogate c")
    case lead: True
    then have nu: "\<not> uriUnreserved c"
      using unreserved_not_surrogate by blast
    show ?thesis
    proof (cases cs)
      case Nil
      with lead nu "2.prems" show ?thesis by simp
    next
      case (Cons d ds)
      show ?thesis
      proof (cases "isTrailSurrogate d")
        case True
        with "2.IH"(1) [OF lead Cons] lead nu Cons "2.prems" show ?thesis
          by (simp add: emit_Inl_iff)
      next
        case False
        with lead nu Cons "2.prems" show ?thesis by simp
      qed
    qed
  next
    case nolead: False
    with "2.IH"(2) [OF nolead] "2.prems" show ?thesis
      by (auto simp: emit_Inl_iff split: if_splits)
  qed
qed

lemma hexDigit_unreserved: "n < 16 \<Longrightarrow> uriUnreserved (hexDigit n)"
  by (auto simp: uriUnreserved_def hexDigit_def Let_def unat_of_nat)

lemma percentEncode_chars:
  "b < 256 \<Longrightarrow> c \<in> set (percentEncode b) \<Longrightarrow> uriUnreserved c \<or> c = 0x25"
  by (auto simp: percentEncode_def intro!: hexDigit_unreserved)

lemma utf8_bytes: "cp < 0x110000 \<Longrightarrow> b \<in> set (utf8 cp) \<Longrightarrow> b < 256"
  by (auto simp: utf8_def split: if_splits)

lemma surrogatePair_bound:
  "isLeadSurrogate a \<Longrightarrow> isTrailSurrogate d \<Longrightarrow> surrogatePair a d < 0x110000"
  unfolding isLeadSurrogate_def isTrailSurrogate_def surrogatePair_def by arith

lemma unit_bound: "unat (c :: 16 word) < 0x110000"
  using unsigned_less [of c, where 'a = nat] by simp

lemma escape_chars:
  "cp < 0x110000 \<Longrightarrow> c \<in> set (concat (map percentEncode (utf8 cp)))
     \<Longrightarrow> uriUnreserved c \<or> c = 0x25"
  using percentEncode_chars utf8_bytes by auto

lemma encode_chars:
  "encodeURIComponent s = Inr u \<Longrightarrow> c \<in> set u \<Longrightarrow> uriUnreserved c \<or> c = 0x25"
proof (induction s arbitrary: u rule: encodeURIComponent.induct)
  case 1
  then show ?case by simp
next
  case (2 a as)
  show ?case
  proof (cases "uriUnreserved a")
    case True
    with "2.prems" "2.IH"(1) show ?thesis
      by (auto simp: emit_Inr_iff)
  next
    case nu: False
    show ?thesis
    proof (cases "isLeadSurrogate a")
      case lead: True
      with nu "2.prems" obtain d ds where as: "as = d # ds" and tr: "isTrailSurrogate d"
        by (cases as) (auto split: if_splits)
      from nu lead as tr "2.prems"(1) obtain t where
        t: "encodeURIComponent ds = Inr t"
        and u: "u = concat (map percentEncode (utf8 (surrogatePair a d))) @ t"
        by (auto simp: emit_Inr_iff)
      from "2.prems"(2) u consider
        "c \<in> set (concat (map percentEncode (utf8 (surrogatePair a d))))" | "c \<in> set t"
        by auto
      then show ?thesis
      proof cases
        case 1
        then show ?thesis
          using escape_chars [OF surrogatePair_bound [OF lead tr]] by blast
      next
        case 2
        then show ?thesis
          using "2.IH"(2) [OF nu lead as tr t] by blast
      qed
    next
      case nolead: False
      with nu "2.prems" have nt: "\<not> isTrailSurrogate a"
        by (auto split: if_splits)
      from nu nolead nt "2.prems"(1) obtain t where
        t: "encodeURIComponent as = Inr t"
        and u: "u = concat (map percentEncode (utf8 (unat a))) @ t"
        by (auto simp: emit_Inr_iff)
      from "2.prems"(2) u consider
        "c \<in> set (concat (map percentEncode (utf8 (unat a))))" | "c \<in> set t"
        by auto
      then show ?thesis
      proof cases
        case 1
        then show ?thesis
          using escape_chars [OF unit_bound] by blast
      next
        case 2
        then show ?thesis
          using "2.IH"(3) [OF nu nolead nt t] by blast
      qed
    qed
  qed
qed


section \<open>Properties of createCard\<close>

text \<open>Running the tokenizer over the pieces of a markup.\<close>

lemmas lex = js_def lowerAlpha_def textChar_def valueChar_def flush_def

lemma run_append:
  "run ts st (xs @ ys) =
     (case run ts st xs of None \<Rightarrow> None | Some (ts', st') \<Rightarrow> run ts' st' ys)"
  by (induction xs arbitrary: ts st) (auto split: option.splits)

lemma run_text: "\<forall>c\<in>set v. textChar c \<Longrightarrow> run ts (Data t) v = Some (ts, Data (t @ v))"
  by (induction v arbitrary: t) (auto simp: textChar_def)

lemma run_value:
  "\<forall>c\<in>set v. valueChar c \<Longrightarrow>
     run ts (AttributeValue n as a acc) v = Some (ts, AttributeValue n as a (acc @ v))"
  by (induction v arbitrary: acc) (auto simp: valueChar_def)

lemma card_markup_parse:
  assumes link: "\<forall>c\<in>set link. valueChar c"
    and ic: "\<forall>c\<in>set ic. valueChar c"
    and nm_value: "\<forall>c\<in>set nm. valueChar c"
    and nm_text: "\<forall>c\<in>set nm. textChar c" and nm: "nm \<noteq> []"
    and lab_text: "\<forall>c\<in>set lab. textChar c" and lab: "lab \<noteq> []"
  shows "parseFragment
      (js ''\<newline>        <a href=\"'' @ link
       @ js ''\" target=\"_blank\" rel=\"noopener\">\<newline>            <img src=\"''
       @ ic @ js ''\" alt=\"'' @ nm
       @ js ''\" loading=\"lazy\">\<newline>        </a>\<newline>        <div class=\"name\">''
       @ nm @ js ''</div>\<newline>        <div class=\"days\">''
       @ lab @ js ''</div>\<newline>    '')
    = Some
       [TextNode (js ''\<newline>        ''),
        Element (js ''a'')
          [(js ''href'', link), (js ''target'', js ''_blank''), (js ''rel'', js ''noopener'')]
          [TextNode (js ''\<newline>            ''),
           Element (js ''img'')
             [(js ''src'', ic), (js ''alt'', nm), (js ''loading'', js ''lazy'')] [],
           TextNode (js ''\<newline>        '')],
        TextNode (js ''\<newline>        ''),
        Element (js ''div'') [(js ''class'', js ''name'')] [TextNode nm],
        TextNode (js ''\<newline>        ''),
        Element (js ''div'') [(js ''class'', js ''days'')] [TextNode lab],
        TextNode (js ''\<newline>    '')]"
  using assms
  by (simp add: parseFragment_def tokenize_def run_append run_text run_value lex)

lemma unreserved_valueChar: "uriUnreserved c \<Longrightarrow> valueChar c"
  by (auto simp: uriUnreserved_def valueChar_def js_def Let_def)

lemma link_valueChar:
  assumes "encodeURIComponent s = Inr escaped"
  shows "\<forall>c\<in>set (ITEM_LINK_BASE @ escaped). valueChar c"
proof -
  have "\<forall>c\<in>set ITEM_LINK_BASE. valueChar c"
    by (simp add: ITEM_LINK_BASE_def js_def valueChar_def)
  moreover have "\<forall>c\<in>set escaped. valueChar c"
  proof
    fix c assume "c \<in> set escaped"
    then have "uriUnreserved c \<or> c = 0x25"
      by (rule encode_chars [OF assms])
    then show "valueChar c"
      using unreserved_valueChar by (auto simp: valueChar_def)
  qed
  ultimately show ?thesis by auto
qed

lemma digit_plain: "48 \<le> unat c \<and> unat c \<le> 57 \<Longrightarrow> textChar c"
  by (auto simp: textChar_def)

lemma toString_positive_chars:
  assumes "c \<in> set (Number_toString_positive x)"
  shows "textChar c"
proof -
  define m where "m = trailingZeros x (length (digits x))"
  define ds where "ds = digits (significand x m)"
  have ds: "\<And>c. c \<in> set ds \<Longrightarrow> textChar c"
    unfolding ds_def using digits_are_digits digit_plain by blast
  have "ds \<noteq> []"
    unfolding ds_def by (rule digits_nonempty)
  then have "hd ds \<in> set ds" and "set (tl ds) \<subseteq> set ds"
    by (simp_all add: list.set_sel(2) subsetI)
  with ds have hd: "textChar (hd ds)" and tl: "\<And>c. c \<in> set (tl ds) \<Longrightarrow> textChar c"
    by blast+
  have expo: "\<And>c. c \<in> set (digits (length ds + m - 1)) \<Longrightarrow> textChar c"
    using digits_are_digits digit_plain by blast
  have lit: "\<And>c. c \<in> set (js ''.'') \<or> c \<in> set (js ''e+'') \<or> c = 48 \<Longrightarrow> textChar c"
    by (auto simp: js_def textChar_def)
  from assms have "c \<in> set ds \<or> c = 48 \<or> c = hd ds \<or> c \<in> set (js ''.'')
      \<or> c \<in> set (tl ds) \<or> c \<in> set (js ''e+'') \<or> c \<in> set (digits (length ds + m - 1))"
    by (auto simp: Number_toString_positive_def Let_def simp flip: m_def ds_def
        split: if_splits)
  with ds hd tl expo lit show ?thesis
    by blast
qed

lemma toString_chars: "c \<in> set (Number_toString k) \<Longrightarrow> textChar c"
  using toString_positive_chars
  by (auto simp: Number_toString_def js_def textChar_def split: if_splits)

lemma formatDays_chars: "c \<in> set (formatDays v) \<Longrightarrow> textChar c"
proof -
  have lit: "\<And>c. c \<in> set (js ''Unknown'') \<or> c \<in> set (js ''y '') \<or> c \<in> set (js ''m '')
      \<or> c \<in> set (js ''d ago'') \<or> c \<in> set (js '' days ago'') \<Longrightarrow> textChar c"
    by (auto simp: js_def textChar_def)
  assume "c \<in> set (formatDays v)"
  then have "c \<in> set (js ''Unknown'') \<or> c \<in> set (js ''y '') \<or> c \<in> set (js ''m '')
      \<or> c \<in> set (js ''d ago'') \<or> c \<in> set (js '' days ago'') \<or> (\<exists>k. c \<in> set (Number_toString k))"
    by (auto simp: formatDays_def Let_def split: optional.splits if_splits)
  with lit toString_chars show ?thesis
    by blast
qed

lemma formatDays_nonempty: "formatDays v \<noteq> []"
  by (simp add: formatDays_def Let_def js_def split: optional.splits)

text \<open>
  C3 (as amended): for every item whose id, when present, has no unpaired surrogate,
  whose name has no double quote, ampersand, less-than sign, NUL or carriage return
  and whose icon has no double quote, ampersand, NUL or carriage return,
  \<open>createCard\<close> produces a node of class \<open>card\<close> whose children are: an anchor
  whose \<open>href\<close> is \<open>https://fnbr.co/cosmetics?id=\<close> followed by
  \<open>encodeURIComponent\<close> of the id, holding the lazily loaded image; a name label
  whose text is the name; and a days label whose text is the formatted day count. A
  missing (or empty) name is shown as \<open>Unknown\<close>; a missing id or icon counts as
  the empty string.
\<close>

theorem createCard_node:
  assumes id_ok: "\<forall>s. item_id item = Present s \<longrightarrow> wellFormed s"
    and name_ok: "\<forall>s. name item = Present s \<longrightarrow> (\<forall>c\<in>set s. valueChar c \<and> textChar c)"
    and icon_ok: "\<forall>s. icon item = Present s \<longrightarrow> (\<forall>c\<in>set s. valueChar c)"
  shows "\<exists>escaped node.
      encodeURIComponent (case item_id item of Present s \<Rightarrow> s | _ \<Rightarrow> []) = Inr escaped
    \<and> createCard item = Inr node
    \<and> className node = js ''card''
    \<and> parseFragment (innerHTML node) = Some
       [TextNode (js ''\<newline>        ''),
        Element (js ''a'')
          [(js ''href'', js ''https://fnbr.co/cosmetics?id='' @ escaped),
           (js ''target'', js ''_blank''), (js ''rel'', js ''noopener'')]
          [TextNode (js ''\<newline>            ''),
           Element (js ''img'')
             [(js ''src'', case icon item of Present s \<Rightarrow> s | _ \<Rightarrow> []),
              (js ''alt'', case name item of
                             Present n \<Rightarrow> if n = [] then js ''Unknown'' else n
                           | _ \<Rightarrow> js ''Unknown''),
              (js ''loading'', js ''lazy'')] [],
           TextNode (js ''\<newline>        '')],
        TextNode (js ''\<newline>        ''),
        Element (js ''div'') [(js ''class'', js ''name'')]
          [TextNode (case name item of
                       Present n \<Rightarrow> if n = [] then js ''Unknown'' else n
                     | _ \<Rightarrow> js ''Unknown'')],
        TextNode (js ''\<newline>        ''),
        Element (js ''div'') [(js ''class'', js ''days'')]
          [TextNode (formatDays (days_since item))],
        TextNode (js ''\<newline>    '')]"
proof -
  let ?id = "case item_id item of Present s \<Rightarrow> s | _ \<Rightarrow> []"
  let ?ic = "case icon item of Present s \<Rightarrow> s | _ \<Rightarrow> []"
  let ?nm = "case name item of Present n \<Rightarrow> if n = [] then js ''Unknown'' else n
             | _ \<Rightarrow> js ''Unknown''"
  have id: "or_string (item_id item) [] = ?id"
    by (simp add: or_string_def split: optional.splits)
  have ic: "or_string (icon item) [] = ?ic"
    by (simp add: or_string_def split: optional.splits)
  have nm: "or_string (name item) (js ''Unknown'') = ?nm"
    by (simp add: or_string_def split: optional.splits)
  have "wellFormed ?id"
    using id_ok by (simp split: optional.splits)
  then obtain escaped where enc: "encodeURIComponent ?id = Inr escaped"
    using encode_wellFormed_iff by blast
  define link where "link = ITEM_LINK_BASE @ escaped"
  have link_ok: "\<forall>c\<in>set link. valueChar c"
    unfolding link_def using enc by (rule link_valueChar)
  have unknown: "\<forall>c\<in>set (js ''Unknown''). valueChar c \<and> textChar c"
    by (simp add: js_def valueChar_def textChar_def)
  have nm_ok: "\<forall>c\<in>set ?nm. valueChar c \<and> textChar c"
    using name_ok unknown by (cases "name item") auto
  have nm_nonempty: "?nm \<noteq> []"
    by (simp add: js_def split: optional.splits)
  have ic_ok: "\<forall>c\<in>set ?ic. valueChar c"
    using icon_ok by (cases "icon item") auto
  have lab_ok: "\<forall>c\<in>set (formatDays (days_since item)). textChar c"
    using formatDays_chars by blast
  define node where "node =
     \<lparr>className = js ''card'',
      innerHTML =
        js ''\<newline>        <a href=\"'' @ link
        @ js ''\" target=\"_blank\" rel=\"noopener\">\<newline>            <img src=\"''
        @ ?ic @ js ''\" alt=\"'' @ ?nm
        @ js ''\" loading=\"lazy\">\<newline>        </a>\<newline>        <div class=\"name\">''
        @ ?nm @ js ''</div>\<newline>        <div class=\"days\">''
        @ formatDays (days_since item) @ js ''</div>\<newline>    ''\<rparr>"
  have made: "createCard item = Inr node"
    using enc by (simp add: createCard_def Let_def id ic nm node_def link_def)
  have parsed: "parseFragment (innerHTML node) = Some
       [TextNode (js ''\<newline>        ''),
        Element (js ''a'')
          [(js ''href'', link), (js ''target'', js ''_blank''), (js ''rel'', js ''noopener'')]
          [TextNode (js ''\<newline>            ''),
           Element (js ''img'')
             [(js ''src'', ?ic), (js ''alt'', ?nm), (js ''loading'', js ''lazy'')] [],
           TextNode (js ''\<newline>        '')],
        TextNode (js ''\<newline>        ''),
        Element (js ''div'') [(js ''class'', js ''name'')] [TextNode ?nm],
        TextNode (js ''\<newline>        ''),
        Element (js ''div'') [(js ''class'', js ''days'')]
          [TextNode (formatDays (days_since item))],
        TextNode (js ''\<newline>    '')]"
    unfolding node_def Card.simps
    using link_ok ic_ok nm_ok nm_nonempty lab_ok formatDays_nonempty
    by (intro card_markup_parse) blast+
  show ?thesis
    using enc made parsed by (auto simp: node_def link_def ITEM_LINK_BASE_def)
qed

theorem createCard_node_witness:
  "wellFormed (js ''CID_A 1'')
   \<and> createCard \<lparr>item_id = Present (js ''CID_A 1''), name = Present (js ''Skin''),
                   icon = Null, days_since = Present 400\<rparr>
     = Inr \<lparr>className = js ''card'',
            innerHTML =
              js ''\<newline>        <a href=\"https://fnbr.co/cosmetics?id=CID_A%201\" target=\"_blank\" rel=\"noopener\">\<newline>            <img src=\"\" alt=\"Skin\" loading=\"lazy\">\<newline>        </a>\<newline>        <div class=\"name\">Skin</div>\<newline>        <div class=\"days\">1y 35d ago</div>\<newline>    ''\<rparr>
   \<and> parseFragment
        (js ''\<newline>        <a href=\"https://fnbr.co/cosmetics?id=CID_A%201\" target=\"_blank\" rel=\"noopener\">\<newline>            <img src=\"\" alt=\"Skin\" loading=\"lazy\">\<newline>        </a>\<newline>        <div class=\"name\">Skin</div>\<newline>        <div class=\"days\">1y 35d ago</div>\<newline>    '')
     = Some
       [TextNode (js ''\<newline>        ''),
        Element (js ''a'')
          [(js ''href'', js ''https://fnbr.co/cosmetics?id=CID_A%201''),
           (js ''target'', js ''_blank''), (js ''rel'', js ''noopener'')]
          [TextNode (js ''\<newline>            ''),
           Element (js ''img'')
             [(js ''src'', []), (js ''alt'', js ''Skin''), (js ''loading'', js ''lazy'')] [],
           TextNode (js ''\<newline>        '')],
        TextNode (js ''\<newline>        ''),
        Element (js ''div'') [(js ''class'', js ''name'')] [TextNode (js ''Skin'')],
        TextNode (js ''\<newline>        ''),
        Element (js ''div'') [(js ''class'', js ''days'')] [TextNode (js ''1y 35d ago'')],
        TextNode (js ''\<newline>    '')]"
proof -
  let ?item = "\<lparr>item_id = Present (js ''CID_A 1''), name = Present (js ''Skin''),
                   icon = Null, days_since = Present 400\<rparr>"
  have wf: "wellFormed (js ''CID_A 1'')"
    by (simp add: js_def isLeadSurrogate_def isTrailSurrogate_def)
  have enc: "encodeURIComponent (js ''CID_A 1'') = Inr (js ''CID_A%201'')"
    by (simp add: js_def uriUnreserved_def isLeadSurrogate_def isTrailSurrogate_def emit_def
        utf8_def percentEncode_def hexDigit_def)
  have made: "createCard ?item
     = Inr \<lparr>className = js ''card'',
            innerHTML =
              js ''\<newline>        <a href=\"https://fnbr.co/cosmetics?id=CID_A%201\" target=\"_blank\" rel=\"noopener\">\<newline>            <img src=\"\" alt=\"Skin\" loading=\"lazy\">\<newline>        </a>\<newline>        <div class=\"name\">Skin</div>\<newline>        <div class=\"days\">1y 35d ago</div>\<newline>    ''\<rparr>"
    by (simp add: createCard_def or_string_def ITEM_LINK_BASE_def formatDays_examples(1) enc)
       (simp add: js_def)
  have "\<forall>s. item_id ?item = Present s \<longrightarrow> wellFormed s"
    using wf by simp
  moreover have "\<forall>s. name ?item = Present s \<longrightarrow> (\<forall>c\<in>set s. valueChar c \<and> textChar c)"
    by (simp add: js_def valueChar_def textChar_def)
  moreover have "\<forall>s. icon ?item = Present s \<longrightarrow> (\<forall>c\<in>set s. valueChar c)"
    by simp
  ultimately obtain escaped node where
    "encodeURIComponent (case item_id ?item of Present s \<Rightarrow> s | _ \<Rightarrow> []) = Inr escaped"
    and "createCard ?item = Inr node"
    and "parseFragment (innerHTML node) = Some
       [TextNode (js ''\<newline>        ''),
        Element (js ''a'')
          [(js ''href'', js ''https://fnbr.co/cosmetics?id='' @ escaped),
           (js ''target'', js ''_blank''), (js ''rel'', js ''noopener'')]
          [TextNode (js ''\<newline>            ''),
           Element (js ''img'')
             [(js ''src'', case icon ?item of Present s \<Rightarrow> s | _ \<Rightarrow> []),
              (js ''alt'', case name ?item of
                             Present n \<Rightarrow> if n = [] then js ''Unknown'' else n
                           | _ \<Rightarrow> js ''Unknown''),
              (js ''loading'', js ''lazy'')] [],
           TextNode (js ''\<newline>        '')],
        TextNode (js ''\<newline>        ''),
        Element (js ''div'') [(js ''class'', js ''name'')]
          [TextNode (case name ?item of
                       Present n \<Rightarrow> if n = [] then js ''Unknown'' else n
                     | _ \<Rightarrow> js ''Unknown'')],
        TextNode (js ''\<newline>        ''),
        Element (js ''div'') [(js ''class'', js ''days'')]
          [TextNode (formatDays (days_since ?item))],
        TextNode (js ''\<newline>    '')]"
    using createCard_node [of ?item] by blast
  with enc made wf show ?thesis
    by (simp add: formatDays_examples(1)) (simp add: js_def)
qed

text \<open>
  C3, where the claim as written fails. An id with an unpaired surrogate makes
  \<open>encodeURIComponent\<close> raise \<open>URIError\<close>, and \<open>createCard\<close> produces no
  node. A name is put into the markup as it is: for the name \<open><div>x</div>\<close> the
  name label of the node holds an element, and the text it shows is \<open>x\<close>.
\<close>

theorem createCard_no_node_or_other_label:
  "createCard \<lparr>item_id = Present [0xD800], name = Present (js ''Skin''),
                icon = Undefined, days_since = Present 5\<rparr> = Inl URIError
   \<and> map_sum id (parseFragment \<circ> innerHTML)
        (createCard \<lparr>item_id = Present (js ''A''), name = Present (js ''<div>x</div>''),
                      icon = Undefined, days_since = Present 5\<rparr>)
     = Inr (Some
       [TextNode (js ''\<newline>        ''),
        Element (js ''a'')
          [(js ''href'', js ''https://fnbr.co/cosmetics?id=A''),
           (js ''target'', js ''_blank''), (js ''rel'', js ''noopener'')]
          [TextNode (js ''\<newline>            ''),
           Element (js ''img'')
             [(js ''src'', []), (js ''alt'', js ''<div>x</div>''), (js ''loading'', js ''lazy'')] [],
           TextNode (js ''\<newline>        '')],
        TextNode (js ''\<newline>        ''),
        Element (js ''div'') [(js ''class'', js ''name'')]
          [Element (js ''div'') [] [TextNode (js ''x'')]],
        TextNode (js ''\<newline>        ''),
        Element (js ''div'') [(js ''class'', js ''days'')] [TextNode (js ''5 days ago'')],
        TextNode (js ''\<newline>    '')])
   \<and> textContent (Element (js ''div'') [(js ''class'', js ''name'')]
          [Element (js ''div'') [] [TextNode (js ''x'')]]) = js ''x''"
proof -
  have "createCard \<lparr>item_id = Present [0xD800], name = Present (js ''Skin''),
                icon = Undefined, days_since = Present 5\<rparr> = Inl URIError"
    by (simp add: createCard_def or_string_def uriUnreserved_def isLeadSurrogate_def js_def)
  moreover have "createCard \<lparr>item_id = Present (js ''A''), name = Present (js ''<div>x</div>''),
                      icon = Undefined, days_since = Present 5\<rparr>
     = Inr \<lparr>className = js ''card'',
            innerHTML =
              js ''\<newline>        <a href=\"https://fnbr.co/cosmetics?id=A\" target=\"_blank\" rel=\"noopener\">\<newline>            <img src=\"\" alt=\"<div>x</div>\" loading=\"lazy\">\<newline>        </a>\<newline>        <div class=\"name\"><div>x</div></div>\<newline>        <div class=\"days\">5 days ago</div>\<newline>    ''\<rparr>"
    by (simp add: createCard_def or_string_def ITEM_LINK_BASE_def formatDays_examples(3)
        uriUnreserved_def emit_def js_def)
  moreover have "parseFragment
      (js ''\<newline>        <a href=\"https://fnbr.co/cosmetics?id=A\" target=\"_blank\" rel=\"noopener\">\<newline>            <img src=\"\" alt=\"<div>x</div>\" loading=\"lazy\">\<newline>        </a>\<newline>        <div class=\"name\"><div>x</div></div>\<newline>        <div class=\"days\">5 days ago</div>\<newline>    '')
     = Some
       [TextNode (js ''\<newline>        ''),
        Element (js ''a'')
          [(js ''href'', js ''https://fnbr.co/cosmetics?id=A''),
           (js ''target'', js ''_blank''), (js ''rel'', js ''noopener'')]
          [TextNode (js ''\<newline>            ''),
           Element (js ''img'')
             [(js ''src'', []), (js ''alt'', js ''<div>x</div>''), (js ''loading'', js ''lazy'')] [],
           TextNode (js ''\<newline>        '')],
        TextNode (js ''\<newline>        ''),
        Element (js ''div'') [(js ''class'', js ''name'')]
          [Element (js ''div'') [] [TextNode (js ''x'')]],
        TextNode (js ''\<newline>        ''),
        Element (js ''div'') [(js ''class'', js ''days'')] [TextNode (js ''5 days ago'')],
        TextNode (js ''\<newline>    '')]"
    by (simp add: parseFragment_def tokenize_def lex)
  ultimately show ?thesis
    by simp
qed

section \<open>Properties of the loader\<close>

lemma createCard_succeeds_iff:
  "(\<exists>c. createCard item = Inr c) \<longleftrightarrow> wellFormed (or_string (item_id item) [])"
  unfolding encode_wellFormed_iff [symmetric]
  by (auto simp: createCard_def Let_def split: sum.splits)

lemma createCard_raises:
  "\<not> wellFormed (or_string (item_id item) []) \<Longrightarrow> createCard item = Inl URIError"
proof -
  assume "\<not> wellFormed (or_string (item_id item) [])"
  then have "\<nexists>u. encodeURIComponent (or_string (item_id item) []) = Inr u"
    using encode_wellFormed_iff by blast
  then obtain e where e: "encodeURIComponent (or_string (item_id item) []) = Inl e"
    by (cases "encodeURIComponent (or_string (item_id item) [])") auto
  with encode_raises_URIError have "e = URIError" by blast
  with e show ?thesis by (simp add: createCard_def)
qed

lemma items_forEach_all:
  "map createCard its = map Inr cs \<Longrightarrow>
     items_forEach its p = (None, p\<lparr>grid := grid p @ cs\<rparr>)"
proof (induction its arbitrary: cs p)
  case Nil
  then show ?case by simp
next
  case (Cons item rest)
  then obtain c cs' where cs: "cs = c # cs'" and c: "createCard item = Inr c"
    and rest: "map createCard rest = map Inr cs'"
    by (cases cs) auto
  show ?case
    using Cons.IH [OF rest, of "p\<lparr>grid := grid p @ [c]\<rparr>"] c cs by simp
qed

lemma items_forEach_throws:
  "map createCard pre = map Inr cs \<Longrightarrow> createCard bad = Inl e \<Longrightarrow>
     items_forEach (pre @ bad # post) p = (Some e, p\<lparr>grid := grid p @ cs\<rparr>)"
proof (induction pre arbitrary: cs p)
  case Nil
  then show ?case by simp
next
  case (Cons item rest)
  then obtain c cs' where cs: "cs = c # cs'" and c: "createCard item = Inr c"
    and rest: "map createCard rest = map Inr cs'"
    by (cases cs) auto
  show ?case
    using Cons.IH [OF rest Cons.prems(2), of "p\<lparr>grid := grid p @ [c]\<rparr>"] c cs by simp
qed

lemma all_cards_exist:
  "\<forall>it\<in>set its. wellFormed (or_string (item_id it) []) \<Longrightarrow>
     \<exists>cs. map createCard its = map Inr cs"
proof (induction its)
  case Nil
  then show ?case by simp
next
  case (Cons item rest)
  then obtain cs where "map createCard rest = map Inr cs" by auto
  moreover from Cons.prems obtain c where "createCard item = Inr c"
    using createCard_succeeds_iff [of item] by auto
  ultimately have "map createCard (item # rest) = map Inr (c # cs)" by simp
  then show ?case by blast
qed

text \<open>The paths through \<open>loadData\<close>, one lemma each.\<close>

lemma loadData_rejected:
  "loadData fmt (Rejected e) p =
     p\<lparr>updatedText := js ''Error loading data'',
       console := console p @ [LogMessage (js ''Error loading data''), LogError e]\<rparr>"
  by (simp add: loadData_def loadData_try_def showError_def)

lemma loadData_not_ok:
  "\<not> ok response \<Longrightarrow> loadData fmt (Resolved response) p =
     p\<lparr>updatedText := js ''Failed to load data'',
       console := console p @ [LogMessage (js ''Failed to load data'')]\<rparr>"
  by (simp add: loadData_def loadData_try_def showError_def)

lemma loadData_bad_body:
  "ok response \<Longrightarrow> json response = Inl e \<Longrightarrow> loadData fmt (Resolved response) p =
     p\<lparr>updatedText := js ''Error loading data'',
       console := console p @ [LogMessage (js ''Error loading data''), LogError e]\<rparr>"
  by (simp add: loadData_def loadData_try_def showError_def)

lemma loadData_no_items:
  "ok response \<Longrightarrow> json response = Inr data \<Longrightarrow> or_array (items data) [] = [] \<Longrightarrow>
   loadData fmt (Resolved response) p =
     p\<lparr>updatedText := js ''No items in shop right now'',
       console := console p @ [LogMessage (js ''No items in shop right now'')]\<rparr>"
  by (simp add: loadData_def loadData_try_def showError_def)

lemma loadData_render_throws:
  "ok response \<Longrightarrow> json response = Inr data \<Longrightarrow> items data = Present (pre @ bad # post) \<Longrightarrow>
   map createCard pre = map Inr cs \<Longrightarrow> createCard bad = Inl e \<Longrightarrow>
   loadData fmt (Resolved response) p =
     p\<lparr>grid := cs, updatedText := js ''Error loading data'',
       console := console p @ [LogMessage (js ''Error loading data''), LogError e]\<rparr>"
  using items_forEach_throws [of pre cs bad e post "p\<lparr>grid := []\<rparr>"]
  by (simp add: loadData_def loadData_try_def showError_def or_array_def)

lemma loadData_renders:
  "ok response \<Longrightarrow> json response = Inr data \<Longrightarrow> items data = Present its \<Longrightarrow> its \<noteq> [] \<Longrightarrow>
   map createCard its = map Inr cs \<Longrightarrow>
   loadData fmt (Resolved response) p =
     p\<lparr>grid := cs,
       updatedText := (case updated_utc data of
                        Present s \<Rightarrow> if s = [] then [] else js ''Updated: '' @ fmt s
                      | _ \<Rightarrow> [])\<rparr>"
  using items_forEach_all [of its cs "p\<lparr>grid := []\<rparr>"]
  by (simp add: loadData_def loadData_try_def or_array_def split: optional.splits)


lemma wf_ids_cards:
  assumes "\<forall>it\<in>set its. \<forall>s. item_id it = Present s \<longrightarrow> wellFormed s"
  shows "\<exists>cs. map createCard its = map Inr cs"
proof (rule all_cards_exist, rule ballI)
  fix it assume "it \<in> set its"
  with assms have "\<forall>s. item_id it = Present s \<longrightarrow> wellFormed s" by blast
  then show "wellFormed (or_string (item_id it) [])"
    by (simp add: or_string_def split: optional.splits)
qed

lemma only_status_changed:
  assumes "q = p\<lparr>updatedText := m, console := console p @ l\<rparr>"
  shows "grid q = grid p
       \<and> (\<exists>message logs. q = p\<lparr>updatedText := message, console := console p @ logs\<rparr>)"
proof
  show "grid q = grid p" using assms by simp
  show "\<exists>message logs. q = p\<lparr>updatedText := message, console := console p @ logs\<rparr>"
    using assms by blast
qed

text \<open>
  C2 (as amended): when the fetch resolves with an OK status, the body parses and the
  feed holds a non-empty list of \<open>N\<close> items whose ids, when present, have no
  unpaired surrogate, the children of the grid after the load are exactly the cards
  that \<open>createCard\<close> builds for the items, one per item and in the order of the
  feed. Nothing of the former grid remains: the view is replaced, not patched.
\<close>

theorem loadData_replaces_grid:
  assumes "ok response" and "json response = Inr data"
    and "items data = Present its" and "its \<noteq> []"
    and "\<forall>it\<in>set its. \<forall>s. item_id it = Present s \<longrightarrow> wellFormed s"
  shows "map Inr (grid (loadData fmt (Resolved response) p)) = map createCard its
         \<and> length (grid (loadData fmt (Resolved response) p)) = length its"
proof -
  from wf_ids_cards [OF assms(5)] obtain cs where cs: "map createCard its = map Inr cs" ..
  have "grid (loadData fmt (Resolved response) p) = cs"
    using loadData_renders [OF assms(1-4) cs] by simp
  moreover have "length cs = length its"
    using cs by (metis length_map)
  ultimately show ?thesis using cs by simp
qed

theorem loadData_replaces_grid_witness:
  "length (grid (loadData id
      (Resolved \<lparr>ok = True,
                 json = Inr \<lparr>items = Present
                               [\<lparr>item_id = Present (js ''A 1''), name = Present (js ''One''),
                                 icon = Undefined, days_since = Present 40\<rparr>,
                                \<lparr>item_id = Null, name = Undefined,
                                 icon = Present (js ''i.png''), days_since = Null\<rparr>],
                             updated_utc = Undefined\<rparr>\<rparr>)
      \<lparr>grid = [\<lparr>className = js ''card'', innerHTML = js ''old''\<rparr>],
       updatedText = js ''Loading'', console = []\<rparr>)) = 2"
  using loadData_replaces_grid [of
      "\<lparr>ok = True,
                 json = Inr \<lparr>items = Present
                               [\<lparr>item_id = Present (js ''A 1''), name = Present (js ''One''),
                                 icon = Undefined, days_since = Present 40\<rparr>,
                                \<lparr>item_id = Null, name = Undefined,
                                 icon = Present (js ''i.png''), days_since = Null\<rparr>],
                             updated_utc = Undefined\<rparr>\<rparr>"
      "\<lparr>items = Present
                               [\<lparr>item_id = Present (js ''A 1''), name = Present (js ''One''),
                                 icon = Undefined, days_since = Present 40\<rparr>,
                                \<lparr>item_id = Null, name = Undefined,
                                 icon = Present (js ''i.png''), days_since = Null\<rparr>],
                             updated_utc = Undefined\<rparr>"
      "[\<lparr>item_id = Present (js ''A 1''), name = Present (js ''One''),
                                 icon = Undefined, days_since = Present 40\<rparr>,
                                \<lparr>item_id = Null, name = Undefined,
                                 icon = Present (js ''i.png''), days_since = Null\<rparr>]"
      id
      "\<lparr>grid = [\<lparr>className = js ''card'', innerHTML = js ''old''\<rparr>],
       updatedText = js ''Loading'', console = []\<rparr>"]
  by (simp add: js_def isLeadSurrogate_def isTrailSurrogate_def)

text \<open>
  C2, where the claim as written fails: a feed of one item whose id is an unpaired
  surrogate. The fetch is OK and the list is not empty, yet the grid is cleared, no
  card is appended, and the status reports an error.
\<close>

theorem loadData_unpaired_surrogate:
  "grid (loadData id
      (Resolved \<lparr>ok = True,
                 json = Inr \<lparr>items = Present
                               [\<lparr>item_id = Present [0xD800], name = Present (js ''One''),
                                 icon = Undefined, days_since = Present 40\<rparr>],
                             updated_utc = Undefined\<rparr>\<rparr>)
      \<lparr>grid = [\<lparr>className = js ''card'', innerHTML = js ''old''\<rparr>],
       updatedText = js ''Loading'', console = []\<rparr>) = []
   \<and> updatedText (loadData id
      (Resolved \<lparr>ok = True,
                 json = Inr \<lparr>items = Present
                               [\<lparr>item_id = Present [0xD800], name = Present (js ''One''),
                                 icon = Undefined, days_since = Present 40\<rparr>],
                             updated_utc = Undefined\<rparr>\<rparr>)
      \<lparr>grid = [\<lparr>className = js ''card'', innerHTML = js ''old''\<rparr>],
       updatedText = js ''Loading'', console = []\<rparr>) = js ''Error loading data''"
  by (simp add: loadData_def loadData_try_def or_array_def showError_def createCard_def
      or_string_def uriUnreserved_def isLeadSurrogate_def js_def)

text \<open>
  C4: when the response has a non-OK status, whatever its body, the status text
  becomes \<open>Failed to load data\<close> and the grid keeps its children: no card is
  produced.
\<close>

theorem loadData_http_failure:
  "\<not> ok response \<Longrightarrow>
     updatedText (loadData fmt (Resolved response) p) = js ''Failed to load data''
     \<and> grid (loadData fmt (Resolved response) p) = grid p"
  by (simp add: loadData_not_ok)

theorem loadData_http_failure_witness:
  "\<not> ok \<lparr>ok = False,
           json = Inr \<lparr>items = Present [\<lparr>item_id = Present (js ''A''), name = Undefined,
                                         icon = Undefined, days_since = Present 3\<rparr>],
                       updated_utc = Undefined\<rparr>\<rparr>
   \<and> updatedText (loadData id
        (Resolved \<lparr>ok = False,
           json = Inr \<lparr>items = Present [\<lparr>item_id = Present (js ''A''), name = Undefined,
                                         icon = Undefined, days_since = Present 3\<rparr>],
                       updated_utc = Undefined\<rparr>\<rparr>)
        \<lparr>grid = [\<lparr>className = js ''card'', innerHTML = js ''old''\<rparr>],
         updatedText = js ''Loading'', console = []\<rparr>) = js ''Failed to load data''
   \<and> grid (loadData id
        (Resolved \<lparr>ok = False,
           json = Inr \<lparr>items = Present [\<lparr>item_id = Present (js ''A''), name = Undefined,
                                         icon = Undefined, days_since = Present 3\<rparr>],
                       updated_utc = Undefined\<rparr>\<rparr>)
        \<lparr>grid = [\<lparr>className = js ''card'', innerHTML = js ''old''\<rparr>],
         updatedText = js ''Loading'', console = []\<rparr>)
     = [\<lparr>className = js ''card'', innerHTML = js ''old''\<rparr>]"
  using loadData_http_failure [of
        "\<lparr>ok = False,
           json = Inr \<lparr>items = Present [\<lparr>item_id = Present (js ''A''), name = Undefined,
                                         icon = Undefined, days_since = Present 3\<rparr>],
                       updated_utc = Undefined\<rparr>\<rparr>"
        id
        "\<lparr>grid = [\<lparr>className = js ''card'', innerHTML = js ''old''\<rparr>],
         updatedText = js ''Loading'', console = []\<rparr>"]
  by simp

text \<open>
  C5: when the item list of the feed is empty, or absent (\<open>undefined\<close> or
  \<open>null\<close>) and so defaulted to the empty list, the status text becomes
  \<open>No items in shop right now\<close> and the grid keeps its children.
\<close>

theorem loadData_empty_feed:
  "ok response \<Longrightarrow> json response = Inr data \<Longrightarrow>
   items data = Undefined \<or> items data = Null \<or> items data = Present [] \<Longrightarrow>
     updatedText (loadData fmt (Resolved response) p) = js ''No items in shop right now''
     \<and> grid (loadData fmt (Resolved response) p) = grid p"
  by (auto simp: loadData_no_items or_array_def)

theorem loadData_empty_feed_witness:
  "updatedText (loadData id
        (Resolved \<lparr>ok = True, json = Inr \<lparr>items = Present [], updated_utc = Present (js ''2024-01-01'')\<rparr>\<rparr>)
        \<lparr>grid = [\<lparr>className = js ''card'', innerHTML = js ''old''\<rparr>],
         updatedText = js ''Loading'', console = []\<rparr>) = js ''No items in shop right now''
   \<and> grid (loadData id
        (Resolved \<lparr>ok = True, json = Inr \<lparr>items = Present [], updated_utc = Present (js ''2024-01-01'')\<rparr>\<rparr>)
        \<lparr>grid = [\<lparr>className = js ''card'', innerHTML = js ''old''\<rparr>],
         updatedText = js ''Loading'', console = []\<rparr>)
     = [\<lparr>className = js ''card'', innerHTML = js ''old''\<rparr>]
   \<and> updatedText (loadData id
        (Resolved \<lparr>ok = True, json = Inr \<lparr>items = Undefined, updated_utc = Undefined\<rparr>\<rparr>)
        \<lparr>grid = [], updatedText = js ''Loading'', console = []\<rparr>)
     = js ''No items in shop right now''"
  using loadData_empty_feed [of
        "\<lparr>ok = True, json = Inr \<lparr>items = Present [], updated_utc = Present (js ''2024-01-01'')\<rparr>\<rparr>"
        "\<lparr>items = Present [], updated_utc = Present (js ''2024-01-01'')\<rparr>"
        id
        "\<lparr>grid = [\<lparr>className = js ''card'', innerHTML = js ''old''\<rparr>],
         updatedText = js ''Loading'', console = []\<rparr>"]
    loadData_empty_feed [of
        "\<lparr>ok = True, json = Inr \<lparr>items = Undefined, updated_utc = Undefined\<rparr>\<rparr>"
        "\<lparr>items = Undefined, updated_utc = Undefined\<rparr>"
        id
        "\<lparr>grid = [], updatedText = js ''Loading'', console = []\<rparr>"]
  by simp

text \<open>
  C6: every exception is caught, whether \<open>fetch\<close> is rejected, the body does
  not parse, or \<open>createCard\<close> raises while the cards are rendered: the status
  text becomes \<open>Error loading data\<close>, and the console receives that message and
  then the exception itself. \<open>loadData\<close> always ends with a page.
\<close>

theorem loadData_catches:
  "(fetched = Rejected e \<longrightarrow>
      updatedText (loadData fmt fetched p) = js ''Error loading data''
      \<and> console (loadData fmt fetched p)
          = console p @ [LogMessage (js ''Error loading data''), LogError e])
   \<and> (fetched = Resolved response \<and> ok response \<and> json response = Inl e \<longrightarrow>
      updatedText (loadData fmt fetched p) = js ''Error loading data''
      \<and> console (loadData fmt fetched p)
          = console p @ [LogMessage (js ''Error loading data''), LogError e])
   \<and> (fetched = Resolved response \<and> ok response \<and> json response = Inr data
       \<and> items data = Present (pre @ bad # post)
       \<and> (\<forall>it\<in>set pre. \<exists>c. createCard it = Inr c) \<and> createCard bad = Inl e \<longrightarrow>
      updatedText (loadData fmt fetched p) = js ''Error loading data''
      \<and> console (loadData fmt fetched p)
          = console p @ [LogMessage (js ''Error loading data''), LogError e])"
proof (intro conjI impI)
  assume "fetched = Rejected e"
  then show "updatedText (loadData fmt fetched p) = js ''Error loading data''"
    and "console (loadData fmt fetched p)
          = console p @ [LogMessage (js ''Error loading data''), LogError e]"
    by (simp_all add: loadData_rejected)
next
  assume "fetched = Resolved response \<and> ok response \<and> json response = Inl e"
  then show "updatedText (loadData fmt fetched p) = js ''Error loading data''"
    and "console (loadData fmt fetched p)
          = console p @ [LogMessage (js ''Error loading data''), LogError e]"
    by (simp_all add: loadData_bad_body)
next
  assume a: "fetched = Resolved response \<and> ok response \<and> json response = Inr data
       \<and> items data = Present (pre @ bad # post)
       \<and> (\<forall>it\<in>set pre. \<exists>c. createCard it = Inr c) \<and> createCard bad = Inl e"
  then have "\<forall>it\<in>set pre. wellFormed (or_string (item_id it) [])"
    using createCard_succeeds_iff by blast
  then obtain cs where cs: "map createCard pre = map Inr cs"
    using all_cards_exist by blast
  from a cs have "loadData fmt fetched p =
     p\<lparr>grid := cs, updatedText := js ''Error loading data'',
       console := console p @ [LogMessage (js ''Error loading data''), LogError e]\<rparr>"
    using loadData_render_throws [of response data pre bad post cs e fmt p] by simp
  then show "updatedText (loadData fmt fetched p) = js ''Error loading data''"
    and "console (loadData fmt fetched p)
          = console p @ [LogMessage (js ''Error loading data''), LogError e]"
    by simp_all
qed

theorem loadData_catches_witness:
  "updatedText (loadData id (Rejected NetworkError)
      \<lparr>grid = [], updatedText = js ''Loading'', console = []\<rparr>) = js ''Error loading data''
   \<and> console (loadData id (Rejected NetworkError)
      \<lparr>grid = [], updatedText = js ''Loading'', console = []\<rparr>)
     = [LogMessage (js ''Error loading data''), LogError NetworkError]
   \<and> console (loadData id (Resolved \<lparr>ok = True, json = Inl SyntaxError\<rparr>)
      \<lparr>grid = [], updatedText = js ''Loading'', console = []\<rparr>)
     = [LogMessage (js ''Error loading data''), LogError SyntaxError]
   \<and> console (loadData id
        (Resolved \<lparr>ok = True,
           json = Inr \<lparr>items = Present
                         [\<lparr>item_id = Present (js ''A''), name = Undefined,
                           icon = Undefined, days_since = Present 3\<rparr>,
                          \<lparr>item_id = Present [0xDC00], name = Undefined,
                           icon = Undefined, days_since = Present 3\<rparr>],
                       updated_utc = Undefined\<rparr>\<rparr>)
      \<lparr>grid = [], updatedText = js ''Loading'', console = []\<rparr>)
     = [LogMessage (js ''Error loading data''), LogError URIError]"
  using loadData_catches [where fetched = "Rejected NetworkError" and e = NetworkError
      and fmt = id and p = "\<lparr>grid = [], updatedText = js ''Loading'', console = []\<rparr>"]
    loadData_catches [where fetched = "Resolved \<lparr>ok = True, json = Inl SyntaxError\<rparr>"
      and response = "\<lparr>ok = True, json = Inl SyntaxError\<rparr>" and e = SyntaxError
      and fmt = id and p = "\<lparr>grid = [], updatedText = js ''Loading'', console = []\<rparr>"]
    loadData_catches [where fetched = "Resolved \<lparr>ok = True,
           json = Inr \<lparr>items = Present
                         [\<lparr>item_id = Present (js ''A''), name = Undefined,
                           icon = Undefined, days_since = Present 3\<rparr>,
                          \<lparr>item_id = Present [0xDC00], name = Undefined,
                           icon = Undefined, days_since = Present 3\<rparr>],
                       updated_utc = Undefined\<rparr>\<rparr>"
      and response = "\<lparr>ok = True,
           json = Inr \<lparr>items = Present
                         [\<lparr>item_id = Present (js ''A''), name = Undefined,
                           icon = Undefined, days_since = Present 3\<rparr>,
                          \<lparr>item_id = Present [0xDC00], name = Undefined,
                           icon = Undefined, days_since = Present 3\<rparr>],
                       updated_utc = Undefined\<rparr>\<rparr>"
      and data = "\<lparr>items = Present
                         [\<lparr>item_id = Present (js ''A''), name = Undefined,
                           icon = Undefined, days_since = Present 3\<rparr>,
                          \<lparr>item_id = Present [0xDC00], name = Undefined,
                           icon = Undefined, days_since = Present 3\<rparr>],
                       updated_utc = Undefined\<rparr>"
      and pre = "[\<lparr>item_id = Present (js ''A''), name = Undefined,
                           icon = Undefined, days_since = Present 3\<rparr>]"
      and bad = "\<lparr>item_id = Present [0xDC00], name = Undefined,
                           icon = Undefined, days_since = Present 3\<rparr>"
      and post = "[]"
      and e = URIError
      and fmt = id and p = "\<lparr>grid = [], updatedText = js ''Loading'', console = []\<rparr>"]
  by (simp add: createCard_def or_string_def uriUnreserved_def isLeadSurrogate_def
      isTrailSurrogate_def emit_def js_def)

text \<open>
  C7: on a non-OK status, on an empty item list, and on an exception raised before
  rendering began (a rejected fetch, a body that does not parse), the page after the
  load is the page before it with a new status text and more lines on the console:
  the grid is untouched.
\<close>

theorem loadData_failure_frame:
  assumes "(fetched = Resolved response \<and> \<not> ok response)
   \<or> (fetched = Resolved response \<and> ok response \<and> json response = Inr data
       \<and> (items data = Undefined \<or> items data = Null \<or> items data = Present []))
   \<or> fetched = Rejected e
   \<or> (fetched = Resolved response \<and> ok response \<and> json response = Inl e)"
  shows "grid (loadData fmt fetched p) = grid p
       \<and> (\<exists>message logs.
             loadData fmt fetched p
               = p\<lparr>updatedText := message, console := console p @ logs\<rparr>)"
proof -
  from assms consider
    (http) "fetched = Resolved response" "\<not> ok response"
  | (empty) "fetched = Resolved response" "ok response" "json response = Inr data"
      "items data = Undefined \<or> items data = Null \<or> items data = Present []"
  | (rejected) "fetched = Rejected e"
  | (body) "fetched = Resolved response" "ok response" "json response = Inl e"
    by blast
  then show ?thesis
  proof cases
    case http
    then have "loadData fmt fetched p =
       p\<lparr>updatedText := js ''Failed to load data'',
         console := console p @ [LogMessage (js ''Failed to load data'')]\<rparr>"
      by (simp add: loadData_not_ok)
    then show ?thesis by (rule only_status_changed)
  next
    case empty
    then have "or_array (items data) [] = []"
      by (auto simp: or_array_def)
    with empty have "loadData fmt fetched p =
       p\<lparr>updatedText := js ''No items in shop right now'',
         console := console p @ [LogMessage (js ''No items in shop right now'')]\<rparr>"
      by (simp add: loadData_no_items)
    then show ?thesis by (rule only_status_changed)
  next
    case rejected
    then have "loadData fmt fetched p =
       p\<lparr>updatedText := js ''Error loading data'',
         console := console p @ [LogMessage (js ''Error loading data''), LogError e]\<rparr>"
      by (simp add: loadData_rejected)
    then show ?thesis by (rule only_status_changed)
  next
    case body
    then have "loadData fmt fetched p =
       p\<lparr>updatedText := js ''Error loading data'',
         console := console p @ [LogMessage (js ''Error loading data''), LogError e]\<rparr>"
      by (simp add: loadData_bad_body)
    then show ?thesis by (rule only_status_changed)
  qed
qed

theorem loadData_failure_frame_witness:
  "grid (loadData id (Rejected NetworkError)
      \<lparr>grid = [\<lparr>className = js ''card'', innerHTML = js ''old''\<rparr>],
       updatedText = js ''Updated: yesterday'', console = []\<rparr>)
     = [\<lparr>className = js ''card'', innerHTML = js ''old''\<rparr>]
   \<and> grid (loadData id
      (Resolved \<lparr>ok = True, json = Inr \<lparr>items = Null, updated_utc = Undefined\<rparr>\<rparr>)
      \<lparr>grid = [\<lparr>className = js ''card'', innerHTML = js ''old''\<rparr>],
       updatedText = js ''Updated: yesterday'', console = []\<rparr>)
     = [\<lparr>className = js ''card'', innerHTML = js ''old''\<rparr>]"
  using loadData_failure_frame [where fetched = "Rejected NetworkError" and e = NetworkError
      and fmt = id
      and p = "\<lparr>grid = [\<lparr>className = js ''card'', innerHTML = js ''old''\<rparr>],
       updatedText = js ''Updated: yesterday'', console = []\<rparr>"]
    loadData_failure_frame [where
          fetched = "Resolved \<lparr>ok = True, json = Inr \<lparr>items = Null, updated_utc = Undefined\<rparr>\<rparr>"
      and response = "\<lparr>ok = True, json = Inr \<lparr>items = Null, updated_utc = Undefined\<rparr>\<rparr>"
      and data = "\<lparr>items = Null, updated_utc = Undefined\<rparr>"
      and fmt = id
      and p = "\<lparr>grid = [\<lparr>className = js ''card'', innerHTML = js ''old''\<rparr>],
       updatedText = js ''Updated: yesterday'', console = []\<rparr>"]
  by simp

text \<open>
  C8: on a successful load the status text is \<open>Updated: \<close> followed by the
  locale-formatted timestamp when the feed carries one (a non-empty string), and
  the empty string when \<open>updated_utc\<close> is absent; an empty string is falsy and
  counts as absent.
\<close>

theorem loadData_timestamp:
  assumes "ok response" and "json response = Inr data"
    and "items data = Present its" and "its \<noteq> []"
    and "\<forall>it\<in>set its. \<forall>s. item_id it = Present s \<longrightarrow> wellFormed s"
  shows "(\<forall>ts. updated_utc data = Present ts \<and> ts \<noteq> [] \<longrightarrow>
            updatedText (loadData fmt (Resolved response) p) = js ''Updated: '' @ fmt ts)
       \<and> (updated_utc data = Undefined \<or> updated_utc data = Null
            \<or> updated_utc data = Present [] \<longrightarrow>
            updatedText (loadData fmt (Resolved response) p) = [])"
proof -
  from wf_ids_cards [OF assms(5)] obtain cs where cs: "map createCard its = map Inr cs" ..
  show ?thesis
    using loadData_renders [OF assms(1-4) cs, of fmt p] by auto
qed

theorem loadData_timestamp_witness:
  "updatedText (loadData id
      (Resolved \<lparr>ok = True,
         json = Inr \<lparr>items = Present [\<lparr>item_id = Present (js ''A''), name = Undefined,
                                       icon = Undefined, days_since = Present 3\<rparr>],
                     updated_utc = Present (js ''2024-05-01T10:00:00Z'')\<rparr>\<rparr>)
      \<lparr>grid = [], updatedText = js ''Loading'', console = []\<rparr>)
     = js ''Updated: 2024-05-01T10:00:00Z''
   \<and> updatedText (loadData id
      (Resolved \<lparr>ok = True,
         json = Inr \<lparr>items = Present [\<lparr>item_id = Present (js ''A''), name = Undefined,
                                       icon = Undefined, days_since = Present 3\<rparr>],
                     updated_utc = Undefined\<rparr>\<rparr>)
      \<lparr>grid = [], updatedText = js ''Loading'', console = []\<rparr>)
     = []"
  using loadData_timestamp [where
      response = "\<lparr>ok = True,
         json = Inr \<lparr>items = Present [\<lparr>item_id = Present (js ''A''), name = Undefined,
                                       icon = Undefined, days_since = Present 3\<rparr>],
                     updated_utc = Present (js ''2024-05-01T10:00:00Z'')\<rparr>\<rparr>"
      and data = "\<lparr>items = Present [\<lparr>item_id = Present (js ''A''), name = Undefined,
                                       icon = Undefined, days_since = Present 3\<rparr>],
                     updated_utc = Present (js ''2024-05-01T10:00:00Z'')\<rparr>"
      and its = "[\<lparr>item_id = Present (js ''A''), name = Undefined,
                                       icon = Undefined, days_since = Present 3\<rparr>]"
      and fmt = id and p = "\<lparr>grid = [], updatedText = js ''Loading'', console = []\<rparr>"]
    loadData_timestamp [where
      response = "\<lparr>ok = True,
         json = Inr \<lparr>items = Present [\<lparr>item_id = Present (js ''A''), name = Undefined,
                                       icon = Undefined, days_since = Present 3\<rparr>],
                     updated_utc = Undefined\<rparr>\<rparr>"
      and data = "\<lparr>items = Present [\<lparr>item_id = Present (js ''A''), name = Undefined,
                                       icon = Undefined, days_since = Present 3\<rparr>],
                     updated_utc = Undefined\<rparr>"
      and its = "[\<lparr>item_id = Present (js ''A''), name = Undefined,
                                       icon = Undefined, days_since = Present 3\<rparr>]"
      and fmt = id and p = "\<lparr>grid = [], updatedText = js ''Loading'', console = []\<rparr>"]
  by (simp add: js_def isLeadSurrogate_def isTrailSurrogate_def)

section \<open>Behaviour of the script under docs\<close>

text \<open>
  The script under \<open>docs\<close> differs from \<open>loadData\<close> on every guard: it never
  looks at the status of the response, keeps the former children of the grid, and
  writes a timestamp even for an empty list or a missing \<open>updated_utc\<close>. The
  properties above are those of \<open>loadData\<close> and \<open>createCard\<close>.
\<close>

lemma app_load_appends:
  "json response = Inr data \<Longrightarrow> items data = Present its \<Longrightarrow>
     grid (app_load fmt (Resolved response) p) = grid p @ map app_card its
     \<and> updatedText (app_load fmt (Resolved response) p)
         = js ''Updated: '' @ fmt (updated_utc data)"
  by (simp add: app_load_def)

lemma app_load_rejected:
  "app_load fmt (Rejected e) p =
     p\<lparr>updatedText := js ''Failed to load data'', console := console p @ [LogError e]\<rparr>"
  by (simp add: app_load_def app_catch_def)

lemma app_load_bad_body:
  "json response = Inl e \<Longrightarrow> app_load fmt (Resolved response) p =
     p\<lparr>updatedText := js ''Failed to load data'', console := console p @ [LogError e]\<rparr>"
  by (simp add: app_load_def app_catch_def)

lemma app_card_example:
  "app_card \<lparr>item_id = Present (js ''A''), name = Present (js ''Skin''),
             icon = Undefined, days_since = Present 400\<rparr>
   = \<lparr>className = js ''card'',
      innerHTML = js ''\<newline>                <img src=\"undefined\" alt=\"Skin\">\<newline>                <div class=\"name\">Skin</div>\<newline>                <div class=\"days\">400 days ago</div>\<newline>            ''\<rparr>"
  using Number_toString_safe [of 400]
  by (simp add: app_card_def template_string_def template_number_def decimal_def
      digits.simps js_def)

end
